theory Spec2Isabelle
  imports Main "HOL-Library.Sublist"
begin

section \<open>The application factory of autointelli\<close>

text \<open>
  The theory embeds \<^verbatim>\<open>autointelli/__init__.py\<close>: the module-level objects created at
  import time, the factory \<^verbatim>\<open>create_app\<close> and the user loader it registers.
  The factory reads the process environment, fills the configuration dictionary of a new
  application object, builds the Notion client, binds the extensions, rebuilds the token
  serializer and registers the blueprints. Everything it reads is an argument of the model
  and everything it changes outside the application object is a field of \<open>world\<close>.
  The code that the factory calls and that lies outside the module (the conversion of
  text to an integer, the constructor of the Notion client, the extensions, the blueprint
  modules) is an argument too: it may return or raise.
\<close>

subsection \<open>Python values, exceptions and builtins\<close>

text \<open>
  The values that reach the configuration dictionary: \<^verbatim>\<open>None\<close>, strings, integers and
  booleans. Strings are byte lists; text outside ASCII is written as its UTF-8 bytes.
\<close>

datatype pyval = PyNone | PyStr string | PyInt int | PyBool bool

text \<open>
  Instances of \<^verbatim>\<open>Exception\<close>. \<open>ValueError\<close> and \<open>TypeError\<close> stand for the classes
  with all their subclasses, \<open>EnvironmentError\<close> for \<^verbatim>\<open>OSError\<close>, and
  \<open>OtherException\<close> for an instance of any other subclass of \<^verbatim>\<open>Exception\<close>, tagged with
  its class name. Signals that derive from \<^verbatim>\<open>BaseException\<close> only (keyboard interrupt,
  interpreter exit) are not exceptions of this model.
\<close>

datatype py_exception = EnvironmentError | ValueError | TypeError | OtherException string

text \<open>Truth value of a Python object (\<^verbatim>\<open>if x\<close>, \<^verbatim>\<open>not x\<close>).\<close>

fun py_truthy :: "pyval \<Rightarrow> bool" where
  "py_truthy PyNone = False"
| "py_truthy (PyStr v) = (v \<noteq> [])"
| "py_truthy (PyInt n) = (n \<noteq> 0)"
| "py_truthy (PyBool b) = b"

text \<open>
  \<^verbatim>\<open>str.lower()\<close> on ASCII text: the letters A to Z move to a to z, every other
  character stays.
\<close>

definition lower_char :: "char \<Rightarrow> char" where
  "lower_char c =
     (if (65::nat) \<le> of_char c \<and> (of_char c :: nat) \<le> 90
      then char_of ((of_char c :: nat) + 32) else c)"

definition lower :: "string \<Rightarrow> string" where
  "lower v = map lower_char v"

text \<open>
  \<^verbatim>\<open>int(x)\<close>. The conversion of a string is the interpreter's and is an argument,
  \<open>int_str\<close>: it gives the integer, or nothing when \<^verbatim>\<open>int\<close> raises \<^verbatim>\<open>ValueError\<close>.
  \<^verbatim>\<open>None\<close> raises \<^verbatim>\<open>TypeError\<close>, an integer is returned as it is and a boolean as 0
  or 1.
\<close>

fun py_int :: "(string \<Rightarrow> int option) \<Rightarrow> pyval \<Rightarrow> py_exception + int" where
  "py_int int_str (PyInt n) = Inr n"
| "py_int int_str (PyBool b) = Inr (if b then 1 else 0)"
| "py_int int_str (PyStr v) = (case int_str v of None \<Rightarrow> Inl ValueError | Some n \<Rightarrow> Inr n)"
| "py_int int_str PyNone = Inl TypeError"

subsection \<open>The environment\<close>

text \<open>
  \<^verbatim>\<open>os.environ\<close> maps variable names to strings. \<^verbatim>\<open>load_dotenv()\<close> adds the variables
  of the \<^verbatim>\<open>.env\<close> file (the empty map when there is no file) and keeps the value of
  every variable the process already has.
\<close>

type_synonym environ = "string \<rightharpoonup> string"

definition load_dotenv :: "environ \<Rightarrow> environ \<Rightarrow> environ" where
  "load_dotenv dotenv env = dotenv ++ env"

text \<open>\<^verbatim>\<open>os.environ.get(name, default)\<close>; the default of the one-argument call is \<^verbatim>\<open>None\<close>.\<close>

definition environ_get :: "environ \<Rightarrow> string \<Rightarrow> pyval \<Rightarrow> pyval" where
  "environ_get env name dflt = (case env name of None \<Rightarrow> dflt | Some v \<Rightarrow> PyStr v)"

text \<open>The same call where the default is a string literal, so that the result is a string.\<close>

definition environ_get_str :: "environ \<Rightarrow> string \<Rightarrow> string \<Rightarrow> string" where
  "environ_get_str env name dflt = (case env name of None \<Rightarrow> dflt | Some v \<Rightarrow> v)"

subsection \<open>The application object and the module state\<close>

datatype serializer = URLSafeTimedSerializer pyval

datatype notion_client = NotionClient pyval int

datatype blueprint =
  main_bp | auth_bp | solicitudes_bp | ajustes_bp | proyectos_bp | accesorios_bp
  | almacen_bp | compras_bp

text \<open>
  The attributes of the application object that the factory writes: the configuration
  dictionary, \<^verbatim>\<open>notion_client\<close>, \<^verbatim>\<open>url_serializer\<close> (\<open>None\<close> while the attribute does
  not exist) and the blueprints in the order of registration, each with the
  \<^verbatim>\<open>url_prefix\<close> argument of its registration (\<open>None\<close> when none is passed).
  The entries that the framework itself puts into a new configuration, and the template
  and static directories, are left out.
\<close>

record app =
  config :: "string \<rightharpoonup> pyval"
  notion_client :: "notion_client option"
  url_serializer :: "serializer option"
  blueprints :: "(blueprint \<times> string option) list"

definition Flask :: app where
  "Flask = \<lparr>config = Map.empty, notion_client = None, url_serializer = None, blueprints = []\<rparr>"

text \<open>\<^verbatim>\<open>app.config[key] = value\<close> and \<^verbatim>\<open>app.config.get(key, default)\<close>.\<close>

definition config_set :: "app \<Rightarrow> string \<Rightarrow> pyval \<Rightarrow> app" where
  "config_set a key v = a\<lparr>config := (config a)(key \<mapsto> v)\<rparr>"

definition config_get :: "app \<Rightarrow> string \<Rightarrow> pyval \<Rightarrow> pyval" where
  "config_get a key dflt = (case config a key of None \<Rightarrow> dflt | Some v \<Rightarrow> v)"

text \<open>
  What the module prints and logs, one constructor for each message of the source with
  the values it interpolates: the debug line with the database URI, the fatal line printed
  before the raise, the warnings on the mail port, the mail credentials and the missing
  Notion key, the two debug lines and the error line around the construction of the Notion
  client, and the error line of the user loader.
\<close>

datatype message =
    DatabaseUriConfigured pyval
  | FatalDatabaseUrl
  | MailPortInvalid
  | MailIncomplete
  | NotionKeyFound
  | NotionInitialised
  | NotionInitError py_exception
  | NotionKeyMissing
  | InvalidUserId pyval py_exception

datatype event =
    LoggerDebug message
  | LoggerWarning message
  | LoggerError message
  | Print message

datatype init_call = db_init_app | migrate_init_app | login_manager_init_app | mail_init_app

record login_manager_state =
  login_view :: pyval
  login_message_category :: pyval
  login_message :: pyval
  user_callback :: "string option"

text \<open>
  The state outside the application object: the lines printed and logged so far, the
  \<^verbatim>\<open>init_app\<close> calls made so far, the module variable \<^verbatim>\<open>s\<close> and the module's login
  manager.
\<close>

record world =
  emitted :: "event list"
  init_calls :: "init_call list"
  global_s :: serializer
  login_manager :: login_manager_state

definition emit :: "world \<Rightarrow> event \<Rightarrow> world" where
  "emit w e = w\<lparr>emitted := emitted w @ [e]\<rparr>"

text \<open>
  The module right after import: nothing logged, nothing bound, \<^verbatim>\<open>s\<close> built from the
  placeholder secret, and a login manager with the defaults of its library.
\<close>

definition module_import :: world where
  "module_import =
     \<lparr>emitted = [], init_calls = [],
      global_s = URLSafeTimedSerializer (PyStr ''default_secret_key''),
      login_manager =
        \<lparr>login_view = PyNone,
         login_message_category = PyStr ''message'',
         login_message = PyStr ''Please log in to access this page.'',
         user_callback = None\<rparr>\<rparr>"

text \<open>
  The code outside the module. \<open>int_of_str\<close> is \<^verbatim>\<open>int\<close> on a string and \<open>Client\<close>
  the constructor of the Notion client, which returns a client or raises. The other three
  say whether a call raises, and may depend on the whole state at the call:
  \<open>init_app_raises\<close> for the \<^verbatim>\<open>init_app\<close> of an extension, \<open>import_raises\<close> for the
  import of the module of a blueprint, \<open>register_raises\<close> for
  \<^verbatim>\<open>app.register_blueprint\<close>. The constructors of the application object and of the
  serializer, \<^verbatim>\<open>load_dotenv\<close>, logging and printing are taken to return.
\<close>

record externals =
  int_of_str :: "string \<Rightarrow> int option"
  Client :: "pyval \<Rightarrow> int \<Rightarrow> py_exception + notion_client"
  init_app_raises :: "init_call \<Rightarrow> world \<Rightarrow> app \<Rightarrow> py_exception option"
  import_raises :: "blueprint \<Rightarrow> world \<Rightarrow> app \<Rightarrow> py_exception option"
  register_raises :: "blueprint \<Rightarrow> string option \<Rightarrow> world \<Rightarrow> app \<Rightarrow> py_exception option"

subsection \<open>The user loader\<close>

text \<open>
  \<^verbatim>\<open>load_user(user_id)\<close> converts the identifier and looks the user up by primary key.
  The lookup \<^verbatim>\<open>db.session.get(User, n)\<close> belongs to the ORM and is an argument: it
  returns a user, returns \<^verbatim>\<open>None\<close>, or raises. The handler of the \<^verbatim>\<open>try\<close> catches
  \<^verbatim>\<open>ValueError\<close> and \<^verbatim>\<open>TypeError\<close>, from the conversion or from the lookup; it logs and
  returns \<^verbatim>\<open>None\<close>. Any other exception leaves the function.
\<close>

definition load_user_except ::
  "pyval \<Rightarrow> py_exception \<Rightarrow> world \<Rightarrow> world \<times> (py_exception + 'u option)" where
  "load_user_except user_id e w =
     (if e = ValueError \<or> e = TypeError
      then (emit w (LoggerError (InvalidUserId user_id e)), Inr None)
      else (w, Inl e))"

definition load_user ::
  "(string \<Rightarrow> int option) \<Rightarrow> (int \<Rightarrow> py_exception + 'u option) \<Rightarrow> pyval \<Rightarrow> world
     \<Rightarrow> world \<times> (py_exception + 'u option)" where
  "load_user int_str session_get user_id w =
     (case py_int int_str user_id of
        Inl e \<Rightarrow> load_user_except user_id e w
      | Inr n \<Rightarrow>
          (case session_get n of
             Inl e \<Rightarrow> load_user_except user_id e w
           | Inr u \<Rightarrow> (w, Inr u)))"

subsection \<open>The factory\<close>

text \<open>
  The mail port: \<^verbatim>\<open>int(os.environ.get('MAIL_PORT', 465))\<close> inside a \<^verbatim>\<open>try\<close> whose handler
  catches \<^verbatim>\<open>ValueError\<close> only, stores 465 and logs a warning.
\<close>

definition set_mail_port ::
  "externals \<Rightarrow> environ \<Rightarrow> world \<Rightarrow> app \<Rightarrow> world \<times> (py_exception + app)" where
  "set_mail_port ext env w a =
     (case py_int (int_of_str ext) (environ_get env ''MAIL_PORT'' (PyInt 465)) of
        Inr n \<Rightarrow> (w, Inr (config_set a ''MAIL_PORT'' (PyInt n)))
      | Inl e \<Rightarrow>
          if e = ValueError
          then (emit w (LoggerWarning MailPortInvalid), Inr (config_set a ''MAIL_PORT'' (PyInt 465)))
          else (w, Inl e))"

text \<open>The other mail settings and the warning on missing credentials.\<close>

definition configure_mail :: "environ \<Rightarrow> world \<Rightarrow> app \<Rightarrow> world \<times> app" where
  "configure_mail env w a =
     (let a = config_set a ''MAIL_USE_TLS''
                (PyBool (lower (environ_get_str env ''MAIL_USE_TLS'' ''False'') = ''true''));
          a = config_set a ''MAIL_USE_SSL''
                (PyBool (lower (environ_get_str env ''MAIL_USE_SSL'' ''True'') = ''true''));
          a = config_set a ''MAIL_USERNAME'' (environ_get env ''MAIL_USERNAME'' PyNone);
          a = config_set a ''MAIL_PASSWORD'' (environ_get env ''MAIL_PASSWORD'' PyNone);
          a = config_set a ''MAIL_DEFAULT_SENDER''
                (environ_get env ''MAIL_DEFAULT_SENDER'' (config_get a ''MAIL_USERNAME'' PyNone));
          w = (if \<not> py_truthy (config_get a ''MAIL_USERNAME'' PyNone)
                  \<or> \<not> py_truthy (config_get a ''MAIL_PASSWORD'' PyNone)
               then emit w (LoggerWarning MailIncomplete) else w)
      in (w, a))"

text \<open>
  The Notion settings and the client. The constructor is called only when the configured
  key is truthy, and the handler catches every exception.
\<close>

definition configure_notion :: "externals \<Rightarrow> environ \<Rightarrow> world \<Rightarrow> app \<Rightarrow> world \<times> app" where
  "configure_notion ext env w a =
     (let a = config_set a ''NOTION_API_KEY'' (environ_get env ''NOTION_API_KEY'' PyNone);
          a = config_set a ''DATABASE_ID_PROYECTOS'' (environ_get env ''DATABASE_ID_PROYECTOS'' PyNone);
          a = config_set a ''DATABASE_ID_PARTIDAS'' (environ_get env ''DATABASE_ID_PARTIDAS'' PyNone);
          a = config_set a ''DATABASE_ID_PLANES'' (environ_get env ''DATABASE_ID_PLANES'' PyNone);
          a = config_set a ''DATABASE_ID_MATERIALES_DB1'' (environ_get env ''DATABASE_ID'' PyNone);
          a = config_set a ''DATABASE_ID_MATERIALES_DB2'' (environ_get env ''DATABASE_ID_2'' PyNone);
          a = a\<lparr>notion_client := None\<rparr>
      in if py_truthy (config_get a ''NOTION_API_KEY'' PyNone)
         then (let w = emit w (LoggerDebug NotionKeyFound)
               in case Client ext (config_get a ''NOTION_API_KEY'' PyNone) 60000 of
                    Inr c \<Rightarrow> (emit w (LoggerDebug NotionInitialised), a\<lparr>notion_client := Some c\<rparr>)
                  | Inl e \<Rightarrow> (emit w (LoggerError (NotionInitError e)), a\<lparr>notion_client := None\<rparr>))
         else (emit w (LoggerWarning NotionKeyMissing), a))"

text \<open>
  An \<^verbatim>\<open>init_app\<close> call is recorded and then returns or raises. The four extensions are
  bound in the order of the source, outside any \<^verbatim>\<open>try\<close>: the first call that raises
  ends the factory.
\<close>

definition init_app :: "externals \<Rightarrow> init_call \<Rightarrow> world \<Rightarrow> app \<Rightarrow> world \<times> py_exception option" where
  "init_app ext c w a = (w\<lparr>init_calls := init_calls w @ [c]\<rparr>, init_app_raises ext c w a)"

fun init_all :: "externals \<Rightarrow> init_call list \<Rightarrow> world \<Rightarrow> app \<Rightarrow> world \<times> py_exception option" where
  "init_all ext [] w a = (w, None)"
| "init_all ext (c # cs) w a =
     (case init_app ext c w a of
        (w', Some e) \<Rightarrow> (w', Some e)
      | (w', None) \<Rightarrow> init_all ext cs w' a)"

definition init_extensions :: "externals \<Rightarrow> world \<Rightarrow> app \<Rightarrow> world \<times> py_exception option" where
  "init_extensions ext w a =
     init_all ext [db_init_app, migrate_init_app, login_manager_init_app, mail_init_app] w a"

text \<open>
  The serializer is built again from the configured secret, stored in the module variable
  and attached to the application object.
\<close>

definition refresh_serializer :: "world \<Rightarrow> app \<Rightarrow> world \<times> app" where
  "refresh_serializer w a =
     (let s' = URLSafeTimedSerializer
                 (config_get a ''SECRET_KEY'' (PyStr ''default_fallback_secret_again''))
      in (w\<lparr>global_s := s'\<rparr>, a\<lparr>url_serializer := Some s'\<rparr>))"

text \<open>The login manager: view, message category, message, and the registered loader.\<close>

definition login_message_text :: string where
  "login_message_text =
     ''Por favor, inicia sesi'' @ [CHR 0xC3, CHR 0xB3] @ ''n para acceder a esta p''
       @ [CHR 0xC3, CHR 0xA1] @ ''gina.''"

definition configure_login :: "world \<Rightarrow> world" where
  "configure_login w =
     w\<lparr>login_manager :=
         (login_manager w)
           \<lparr>login_view := PyStr ''auth.login'',
            login_message_category := PyStr ''info'',
            login_message := PyStr login_message_text,
            user_callback := Some ''load_user''\<rparr>\<rparr>"

text \<open>
  The modules of the blueprints are imported in the order of the \<^verbatim>\<open>import\<close> statements;
  the first import that raises ends the factory.
\<close>

fun import_all :: "externals \<Rightarrow> blueprint list \<Rightarrow> world \<Rightarrow> app \<Rightarrow> py_exception option" where
  "import_all ext [] w a = None"
| "import_all ext (b # bs) w a =
     (case import_raises ext b w a of Some e \<Rightarrow> Some e | None \<Rightarrow> import_all ext bs w a)"

definition import_blueprints :: "externals \<Rightarrow> world \<Rightarrow> app \<Rightarrow> py_exception option" where
  "import_blueprints ext w a =
     import_all ext
       [auth_bp, solicitudes_bp, ajustes_bp, proyectos_bp, main_bp, accesorios_bp, almacen_bp,
        compras_bp] w a"

text \<open>
  \<^verbatim>\<open>app.register_blueprint(bp, url_prefix=...)\<close> raises, or adds the blueprint with the
  prefix it was given. The eight registrations follow in the order of the source; the
  first that raises ends the factory.
\<close>

definition register_blueprint ::
  "externals \<Rightarrow> world \<Rightarrow> app \<Rightarrow> blueprint \<Rightarrow> string option \<Rightarrow> py_exception + app" where
  "register_blueprint ext w a bp url_prefix =
     (case register_raises ext bp url_prefix w a of
        Some e \<Rightarrow> Inl e
      | None \<Rightarrow> Inr (a\<lparr>blueprints := blueprints a @ [(bp, url_prefix)]\<rparr>))"

fun register_all ::
  "externals \<Rightarrow> world \<Rightarrow> (blueprint \<times> string option) list \<Rightarrow> app \<Rightarrow> py_exception + app" where
  "register_all ext w [] a = Inr a"
| "register_all ext w ((bp, url_prefix) # rest) a =
     (case register_blueprint ext w a bp url_prefix of
        Inl e \<Rightarrow> Inl e
      | Inr a' \<Rightarrow> register_all ext w rest a')"

definition register_blueprints :: "externals \<Rightarrow> world \<Rightarrow> app \<Rightarrow> py_exception + app" where
  "register_blueprints ext w a =
     register_all ext w
       [(main_bp, None), (auth_bp, Some ''/auth''), (solicitudes_bp, Some ''/solicitudes''),
        (ajustes_bp, Some ''/ajustes''), (proyectos_bp, Some ''/proyectos''),
        (accesorios_bp, Some ''/accesorios''), (almacen_bp, Some ''/almacen''),
        (compras_bp, Some ''/compras'')] a"

text \<open>
  \<^verbatim>\<open>create_app()\<close>. The arguments are the code outside the module, the variables of the
  \<^verbatim>\<open>.env\<close> file, the environment of the process and the module state; the result is the
  new module state with either the exception that left the factory or the application
  object it returned.
\<close>

definition default_secret :: string where
  "default_secret = ''una_clave_secreta_por_defecto_muy_segura_cambiar_en_produccion''"

definition create_app ::
  "externals \<Rightarrow> environ \<Rightarrow> environ \<Rightarrow> world \<Rightarrow> world \<times> (py_exception + app)" where
  "create_app ext dotenv process_env w =
     (let env = load_dotenv dotenv process_env;
          a = Flask;
          a = config_set a ''SECRET_KEY'' (environ_get env ''SECRET_KEY'' (PyStr default_secret));
          database_url = environ_get env ''DATABASE_URL'' PyNone;
          a = config_set a ''SQLALCHEMY_DATABASE_URI'' database_url;
          a = config_set a ''SQLALCHEMY_TRACK_MODIFICATIONS'' (PyBool False);
          w = emit w (LoggerDebug
                (DatabaseUriConfigured (config_get a ''SQLALCHEMY_DATABASE_URI'' PyNone)))
      in if \<not> py_truthy database_url
         then (emit w (Print FatalDatabaseUrl), Inl EnvironmentError)
         else
           (let a = config_set a ''MAIL_SERVER''
                      (environ_get env ''MAIL_SERVER'' (PyStr ''smtp.gmail.com''))
            in case set_mail_port ext env w a of
                 (w, Inl e) \<Rightarrow> (w, Inl e)
               | (w, Inr a) \<Rightarrow>
                   (let (w, a) = configure_mail env w a;
                        (w, a) = configure_notion ext env w a
                    in case init_extensions ext w a of
                         (w, Some e) \<Rightarrow> (w, Inl e)
                       | (w, None) \<Rightarrow>
                           (let (w, a) = refresh_serializer w a;
                                w = configure_login w
                            in case import_blueprints ext w a of
                                 Some e \<Rightarrow> (w, Inl e)
                               | None \<Rightarrow>
                                   (case register_blueprints ext w a of
                                      Inl e \<Rightarrow> (w, Inl e)
                                    | Inr a \<Rightarrow> (w, Inr a))))))"

subsection \<open>Inputs for the concrete instances\<close>

text \<open>
  The code outside the module, for the instances. \<open>int_of_str_examples\<close> is \<^verbatim>\<open>int\<close> on
  the strings that the instances convert: \<^verbatim>\<open>"1"\<close> and \<^verbatim>\<open>"7"\<close> give 1 and 7, and
  \<^verbatim>\<open>"not-a-number"\<close> and \<^verbatim>\<open>"not-an-integer"\<close> raise \<^verbatim>\<open>ValueError\<close>, as does every
  other string here (the instances convert no other). In \<open>ext_returns\<close> every call
  returns; \<open>ext_client_raises\<close> differs in the constructor of the Notion client, which
  raises. Three lookups for the user loader: one over a table with the single user 1,
  one whose database cannot be reached, and one that rejects every key with a
  \<^verbatim>\<open>ValueError\<close>.
\<close>

definition int_of_str_examples :: "string \<Rightarrow> int option" where
  "int_of_str_examples v = (if v = ''1'' then Some 1 else if v = ''7'' then Some 7 else None)"

definition ext_returns :: externals where
  "ext_returns =
     \<lparr>int_of_str = int_of_str_examples,
      Client = (\<lambda>auth timeout_ms. Inr (NotionClient auth timeout_ms)),
      init_app_raises = (\<lambda>c w a. None),
      import_raises = (\<lambda>b w a. None),
      register_raises = (\<lambda>b url_prefix w a. None)\<rparr>"

definition ext_client_raises :: externals where
  "ext_client_raises =
     ext_returns\<lparr>Client := (\<lambda>auth timeout_ms. Inl (OtherException ''APIResponseError''))\<rparr>"

definition session_get_finds :: "int \<Rightarrow> py_exception + nat option" where
  "session_get_finds n = Inr (if n = 1 then Some 1 else None)"

definition session_get_raises :: "int \<Rightarrow> py_exception + nat option" where
  "session_get_raises n = Inl (OtherException ''OperationalError'')"

definition session_get_rejects :: "int \<Rightarrow> py_exception + nat option" where
  "session_get_rejects n = Inl ValueError"

section \<open>Properties\<close>

subsection \<open>The blocks of the factory\<close>

text \<open>
  Each block of the factory is characterised on its own; the results on \<open>create_app\<close>
  that follow give the outcome of the factory when the database URL is falsy, and, when
  it is truthy, the state in which the factory starts to bind the extensions.
\<close>

lemma py_int_Inl: "py_int int_str x = Inl e \<Longrightarrow> e = ValueError \<or> e = TypeError"
  by (cases x) (auto split: option.splits)

lemma create_app_falsy:
  assumes "\<not> py_truthy (environ_get (load_dotenv dotenv penv) ''DATABASE_URL'' PyNone)"
  shows "create_app ext dotenv penv w =
     (emit (emit w (LoggerDebug (DatabaseUriConfigured
         (environ_get (load_dotenv dotenv penv) ''DATABASE_URL'' PyNone)))) (Print FatalDatabaseUrl),
      Inl EnvironmentError)"
  using assms by (simp add: create_app_def Let_def config_get_def config_set_def)

lemma set_mail_port_cases:
  "set_mail_port ext env w a =
     (case env ''MAIL_PORT'' of
        None \<Rightarrow> (w, Inr (config_set a ''MAIL_PORT'' (PyInt 465)))
      | Some v \<Rightarrow>
          (case int_of_str ext v of
             None \<Rightarrow> (emit w (LoggerWarning MailPortInvalid), Inr (config_set a ''MAIL_PORT'' (PyInt 465)))
           | Some n \<Rightarrow> (w, Inr (config_set a ''MAIL_PORT'' (PyInt n)))))"
  by (simp add: set_mail_port_def environ_get_def split: option.splits)

lemma set_mail_port_total:
  "\<exists>w' p. set_mail_port ext env w a = (w', Inr (config_set a ''MAIL_PORT'' (PyInt p)))"
  by (auto simp add: set_mail_port_cases split: option.splits)

lemma configure_mail_app:
  assumes "configure_mail env w a = (w', a')"
  shows "a' = a\<lparr>config := (config a)
     (''MAIL_USE_TLS'' \<mapsto> PyBool (lower (environ_get_str env ''MAIL_USE_TLS'' ''False'') = ''true''),
      ''MAIL_USE_SSL'' \<mapsto> PyBool (lower (environ_get_str env ''MAIL_USE_SSL'' ''True'') = ''true''),
      ''MAIL_USERNAME'' \<mapsto> environ_get env ''MAIL_USERNAME'' PyNone,
      ''MAIL_PASSWORD'' \<mapsto> environ_get env ''MAIL_PASSWORD'' PyNone,
      ''MAIL_DEFAULT_SENDER'' \<mapsto>
         environ_get env ''MAIL_DEFAULT_SENDER'' (environ_get env ''MAIL_USERNAME'' PyNone))\<rparr>"
  using assms by (simp add: configure_mail_def Let_def config_set_def config_get_def)

lemma configure_mail_emitted:
  assumes "configure_mail env w a = (w', a')"
  shows "w' = (if \<not> py_truthy (environ_get env ''MAIL_USERNAME'' PyNone)
                  \<or> \<not> py_truthy (environ_get env ''MAIL_PASSWORD'' PyNone)
               then emit w (LoggerWarning MailIncomplete) else w)"
  using assms by (simp add: configure_mail_def Let_def config_set_def config_get_def)

lemma configure_notion_app:
  assumes "configure_notion ext env w a = (w', a')"
  shows "a' = a\<lparr>config := (config a)
     (''NOTION_API_KEY'' \<mapsto> environ_get env ''NOTION_API_KEY'' PyNone,
      ''DATABASE_ID_PROYECTOS'' \<mapsto> environ_get env ''DATABASE_ID_PROYECTOS'' PyNone,
      ''DATABASE_ID_PARTIDAS'' \<mapsto> environ_get env ''DATABASE_ID_PARTIDAS'' PyNone,
      ''DATABASE_ID_PLANES'' \<mapsto> environ_get env ''DATABASE_ID_PLANES'' PyNone,
      ''DATABASE_ID_MATERIALES_DB1'' \<mapsto> environ_get env ''DATABASE_ID'' PyNone,
      ''DATABASE_ID_MATERIALES_DB2'' \<mapsto> environ_get env ''DATABASE_ID_2'' PyNone),
     notion_client :=
       (if py_truthy (environ_get env ''NOTION_API_KEY'' PyNone)
        then (case Client ext (environ_get env ''NOTION_API_KEY'' PyNone) 60000 of
                Inl e \<Rightarrow> None | Inr c \<Rightarrow> Some c)
        else None)\<rparr>"
  using assms
  by (auto simp add: configure_notion_def Let_def config_set_def config_get_def
      split: if_splits sum.splits)

lemma configure_notion_world:
  assumes "configure_notion ext env w a = (w', a')"
  shows "emitted w' = emitted w @
       (if py_truthy (environ_get env ''NOTION_API_KEY'' PyNone)
        then [LoggerDebug NotionKeyFound,
              (case Client ext (environ_get env ''NOTION_API_KEY'' PyNone) 60000 of
                 Inl e \<Rightarrow> LoggerError (NotionInitError e)
               | Inr c \<Rightarrow> LoggerDebug NotionInitialised)]
        else [LoggerWarning NotionKeyMissing])"
  using assms
  by (auto simp add: configure_notion_def Let_def config_set_def config_get_def emit_def
      split: if_splits sum.splits)

lemma configure_notion_rest:
  assumes "configure_notion ext env w a = (w', a')"
  shows "w' = w\<lparr>emitted := emitted w'\<rparr>"
  using assms
  by (auto simp add: configure_notion_def Let_def emit_def split: if_splits sum.splits)

lemma refresh_serializer_eq:
  assumes "refresh_serializer w a = (w', a')"
  shows "a' = a\<lparr>url_serializer := Some (URLSafeTimedSerializer
                  (config_get a ''SECRET_KEY'' (PyStr ''default_fallback_secret_again'')))\<rparr>
       \<and> w' = w\<lparr>global_s := URLSafeTimedSerializer
                  (config_get a ''SECRET_KEY'' (PyStr ''default_fallback_secret_again''))\<rparr>"
  using assms by (auto simp add: refresh_serializer_def Let_def)

text \<open>
  Binding the extensions changes nothing but the list of calls; the calls made are an
  initial part of the calls to make, all of them when no call raises and at least the
  first one otherwise.
\<close>

lemma init_all_calls:
  assumes "init_all ext cs w a = (w', r)"
  shows "\<exists>made. w' = w\<lparr>init_calls := init_calls w @ made\<rparr> \<and> prefix made cs
           \<and> (r = None \<longrightarrow> made = cs) \<and> (cs \<noteq> [] \<longrightarrow> made \<noteq> [])"
  using assms
proof (induction cs arbitrary: w)
  case Nil
  then show ?case by simp
next
  case (Cons c cs)
  show ?case
  proof (cases "init_app_raises ext c w a")
    case (Some e)
    with Cons.prems have "w' = w\<lparr>init_calls := init_calls w @ [c]\<rparr>" and "r = Some e"
      by (simp_all add: init_app_def)
    then show ?thesis by (intro exI [of _ "[c]"]) simp
  next
    case None
    with Cons.prems
    have "init_all ext cs (w\<lparr>init_calls := init_calls w @ [c]\<rparr>) a = (w', r)"
      by (simp add: init_app_def)
    from Cons.IH [OF this] obtain made where
      m: "w' = w\<lparr>init_calls := init_calls w @ [c] @ made\<rparr>" "prefix made cs"
         "r = None \<longrightarrow> made = cs"
      by auto
    then show ?thesis by (intro exI [of _ "c # made"]) simp
  qed
qed

lemma init_extensions_calls:
  assumes "init_extensions ext w a = (w', r)"
  shows "\<exists>rest. w' = w\<lparr>init_calls := init_calls w @ db_init_app # rest\<rparr>
           \<and> (r = None \<longrightarrow> rest = [migrate_init_app, login_manager_init_app, mail_init_app])"
proof -
  from init_all_calls [OF assms [unfolded init_extensions_def]] obtain made where
    m: "w' = w\<lparr>init_calls := init_calls w @ made\<rparr>"
       "prefix made [db_init_app, migrate_init_app, login_manager_init_app, mail_init_app]"
       "r = None \<longrightarrow> made = [db_init_app, migrate_init_app, login_manager_init_app, mail_init_app]"
       "made \<noteq> []"
    by auto
  from m(2,4) obtain rest where "made = db_init_app # rest"
    by (cases made) (auto simp add: prefix_Cons)
  with m(1,3) show ?thesis by auto
qed

text \<open>Registrations that all return add the blueprints, in order, and change nothing else.\<close>

lemma register_all_Inr:
  assumes "register_all ext w l a = Inr a'"
  shows "a' = a\<lparr>blueprints := blueprints a @ l\<rparr>"
  using assms
proof (induction l arbitrary: a)
  case Nil
  then show ?case by simp
next
  case (Cons x l)
  obtain bp url_prefix where x: "x = (bp, url_prefix)" by (cases x)
  from Cons.prems x obtain a1 where
    r: "register_blueprint ext w a bp url_prefix = Inr a1" and t: "register_all ext w l a1 = Inr a'"
    by (auto split: sum.splits)
  from r have "a1 = a\<lparr>blueprints := blueprints a @ [(bp, url_prefix)]\<rparr>"
    by (simp add: register_blueprint_def split: option.splits)
  with Cons.IH [OF t] x show ?case by simp
qed

text \<open>
  With a truthy database URL the factory reaches the binding of the extensions, and its
  result is the one of the steps from there on.
\<close>

lemma create_app_truthy:
  assumes "py_truthy (environ_get (load_dotenv dotenv penv) ''DATABASE_URL'' PyNone)"
  shows "\<exists>w1 a1 w2 a2 w3 a3 w4 r4 w5 a5.
     set_mail_port ext (load_dotenv dotenv penv)
        (emit w (LoggerDebug (DatabaseUriConfigured
           (environ_get (load_dotenv dotenv penv) ''DATABASE_URL'' PyNone))))
        (config_set (config_set (config_set (config_set Flask
           ''SECRET_KEY'' (environ_get (load_dotenv dotenv penv) ''SECRET_KEY'' (PyStr default_secret)))
           ''SQLALCHEMY_DATABASE_URI'' (environ_get (load_dotenv dotenv penv) ''DATABASE_URL'' PyNone))
           ''SQLALCHEMY_TRACK_MODIFICATIONS'' (PyBool False))
           ''MAIL_SERVER'' (environ_get (load_dotenv dotenv penv) ''MAIL_SERVER'' (PyStr ''smtp.gmail.com'')))
       = (w1, Inr a1)
     \<and> configure_mail (load_dotenv dotenv penv) w1 a1 = (w2, a2)
     \<and> configure_notion ext (load_dotenv dotenv penv) w2 a2 = (w3, a3)
     \<and> init_extensions ext w3 a3 = (w4, r4)
     \<and> refresh_serializer w4 a3 = (w5, a5)
     \<and> create_app ext dotenv penv w =
         (case r4 of
            Some e \<Rightarrow> (w4, Inl e)
          | None \<Rightarrow>
              (case import_blueprints ext (configure_login w5) a5 of
                 Some e \<Rightarrow> (configure_login w5, Inl e)
               | None \<Rightarrow>
                   (case register_blueprints ext (configure_login w5) a5 of
                      Inl e \<Rightarrow> (configure_login w5, Inl e)
                    | Inr a \<Rightarrow> (configure_login w5, Inr a))))"
proof -
  let ?env = "load_dotenv dotenv penv"
  let ?db = "environ_get ?env ''DATABASE_URL'' PyNone"
  let ?w0 = "emit w (LoggerDebug (DatabaseUriConfigured ?db))"
  let ?a0 = "config_set (config_set (config_set (config_set Flask
           ''SECRET_KEY'' (environ_get ?env ''SECRET_KEY'' (PyStr default_secret)))
           ''SQLALCHEMY_DATABASE_URI'' ?db)
           ''SQLALCHEMY_TRACK_MODIFICATIONS'' (PyBool False))
           ''MAIL_SERVER'' (environ_get ?env ''MAIL_SERVER'' (PyStr ''smtp.gmail.com''))"
  obtain w1 p where m: "set_mail_port ext ?env ?w0 ?a0 = (w1, Inr (config_set ?a0 ''MAIL_PORT'' (PyInt p)))"
    using set_mail_port_total by blast
  obtain w2 a2 where c2: "configure_mail ?env w1 (config_set ?a0 ''MAIL_PORT'' (PyInt p)) = (w2, a2)"
    by (cases "configure_mail ?env w1 (config_set ?a0 ''MAIL_PORT'' (PyInt p))")
  obtain w3 a3 where c3: "configure_notion ext ?env w2 a2 = (w3, a3)"
    by (cases "configure_notion ext ?env w2 a2")
  obtain w4 r4 where c4: "init_extensions ext w3 a3 = (w4, r4)"
    by (cases "init_extensions ext w3 a3")
  obtain w5 a5 where c5: "refresh_serializer w4 a3 = (w5, a5)"
    by (cases "refresh_serializer w4 a3")
  have uri: "config_get (config_set (config_set (config_set Flask
           ''SECRET_KEY'' (environ_get ?env ''SECRET_KEY'' (PyStr default_secret)))
           ''SQLALCHEMY_DATABASE_URI'' ?db)
           ''SQLALCHEMY_TRACK_MODIFICATIONS'' (PyBool False)) ''SQLALCHEMY_DATABASE_URI'' PyNone = ?db"
    by (simp add: config_get_def config_set_def)
  have "create_app ext dotenv penv w =
         (case r4 of
            Some e \<Rightarrow> (w4, Inl e)
          | None \<Rightarrow>
              (case import_blueprints ext (configure_login w5) a5 of
                 Some e \<Rightarrow> (configure_login w5, Inl e)
               | None \<Rightarrow>
                   (case register_blueprints ext (configure_login w5) a5 of
                      Inl e \<Rightarrow> (configure_login w5, Inl e)
                    | Inr a \<Rightarrow> (configure_login w5, Inr a))))"
    unfolding create_app_def Let_def uri
    using assms m c2 c3 c4 c5 by (cases r4) simp_all
  with m c2 c3 c4 c5 show ?thesis by blast
qed

lemma create_app_outcome:
  assumes "py_truthy (environ_get (load_dotenv dotenv penv) ''DATABASE_URL'' PyNone)"
  shows "emitted (fst (create_app ext dotenv penv w)) = emitted w
     @ [LoggerDebug (DatabaseUriConfigured (environ_get (load_dotenv dotenv penv) ''DATABASE_URL'' PyNone))]
     @ (case load_dotenv dotenv penv ''MAIL_PORT'' of None \<Rightarrow> []
        | Some v \<Rightarrow> (case int_of_str ext v of None \<Rightarrow> [LoggerWarning MailPortInvalid] | Some n \<Rightarrow> []))
     @ (if \<not> py_truthy (environ_get (load_dotenv dotenv penv) ''MAIL_USERNAME'' PyNone)
           \<or> \<not> py_truthy (environ_get (load_dotenv dotenv penv) ''MAIL_PASSWORD'' PyNone)
        then [LoggerWarning MailIncomplete] else [])
     @ (if py_truthy (environ_get (load_dotenv dotenv penv) ''NOTION_API_KEY'' PyNone)
        then [LoggerDebug NotionKeyFound,
              (case Client ext (environ_get (load_dotenv dotenv penv) ''NOTION_API_KEY'' PyNone) 60000 of
                 Inl e \<Rightarrow> LoggerError (NotionInitError e)
               | Inr c \<Rightarrow> LoggerDebug NotionInitialised)]
        else [LoggerWarning NotionKeyMissing])" (is "?E")
    and "\<exists>rest. init_calls (fst (create_app ext dotenv penv w))
                  = init_calls w @ db_init_app # rest" (is "?I")
    and "snd (create_app ext dotenv penv w) = Inr a \<Longrightarrow>
       a = \<lparr>config =
              [''SECRET_KEY'' \<mapsto> environ_get (load_dotenv dotenv penv) ''SECRET_KEY'' (PyStr default_secret),
               ''SQLALCHEMY_DATABASE_URI'' \<mapsto> environ_get (load_dotenv dotenv penv) ''DATABASE_URL'' PyNone,
               ''SQLALCHEMY_TRACK_MODIFICATIONS'' \<mapsto> PyBool False,
               ''MAIL_SERVER'' \<mapsto>
                  environ_get (load_dotenv dotenv penv) ''MAIL_SERVER'' (PyStr ''smtp.gmail.com''),
               ''MAIL_PORT'' \<mapsto> PyInt (case load_dotenv dotenv penv ''MAIL_PORT'' of None \<Rightarrow> 465
                   | Some v \<Rightarrow> (case int_of_str ext v of None \<Rightarrow> 465 | Some n \<Rightarrow> n)),
               ''MAIL_USE_TLS'' \<mapsto> PyBool
                  (lower (environ_get_str (load_dotenv dotenv penv) ''MAIL_USE_TLS'' ''False'') = ''true''),
               ''MAIL_USE_SSL'' \<mapsto> PyBool
                  (lower (environ_get_str (load_dotenv dotenv penv) ''MAIL_USE_SSL'' ''True'') = ''true''),
               ''MAIL_USERNAME'' \<mapsto> environ_get (load_dotenv dotenv penv) ''MAIL_USERNAME'' PyNone,
               ''MAIL_PASSWORD'' \<mapsto> environ_get (load_dotenv dotenv penv) ''MAIL_PASSWORD'' PyNone,
               ''MAIL_DEFAULT_SENDER'' \<mapsto>
                  environ_get (load_dotenv dotenv penv) ''MAIL_DEFAULT_SENDER''
                    (environ_get (load_dotenv dotenv penv) ''MAIL_USERNAME'' PyNone),
               ''NOTION_API_KEY'' \<mapsto> environ_get (load_dotenv dotenv penv) ''NOTION_API_KEY'' PyNone,
               ''DATABASE_ID_PROYECTOS'' \<mapsto>
                  environ_get (load_dotenv dotenv penv) ''DATABASE_ID_PROYECTOS'' PyNone,
               ''DATABASE_ID_PARTIDAS'' \<mapsto>
                  environ_get (load_dotenv dotenv penv) ''DATABASE_ID_PARTIDAS'' PyNone,
               ''DATABASE_ID_PLANES'' \<mapsto>
                  environ_get (load_dotenv dotenv penv) ''DATABASE_ID_PLANES'' PyNone,
               ''DATABASE_ID_MATERIALES_DB1'' \<mapsto>
                  environ_get (load_dotenv dotenv penv) ''DATABASE_ID'' PyNone,
               ''DATABASE_ID_MATERIALES_DB2'' \<mapsto>
                  environ_get (load_dotenv dotenv penv) ''DATABASE_ID_2'' PyNone],
            notion_client =
              (if py_truthy (environ_get (load_dotenv dotenv penv) ''NOTION_API_KEY'' PyNone)
               then (case Client ext (environ_get (load_dotenv dotenv penv) ''NOTION_API_KEY'' PyNone)
                            60000 of Inl e \<Rightarrow> None | Inr c \<Rightarrow> Some c)
               else None),
            url_serializer = Some (URLSafeTimedSerializer
               (environ_get (load_dotenv dotenv penv) ''SECRET_KEY'' (PyStr default_secret))),
            blueprints =
              [(main_bp, None), (auth_bp, Some ''/auth''), (solicitudes_bp, Some ''/solicitudes''),
               (ajustes_bp, Some ''/ajustes''), (proyectos_bp, Some ''/proyectos''),
               (accesorios_bp, Some ''/accesorios''), (almacen_bp, Some ''/almacen''),
               (compras_bp, Some ''/compras'')]\<rparr>" (is "_ \<Longrightarrow> ?A")
    and "snd (create_app ext dotenv penv w) = Inr a \<Longrightarrow>
       global_s (fst (create_app ext dotenv penv w)) = URLSafeTimedSerializer
         (environ_get (load_dotenv dotenv penv) ''SECRET_KEY'' (PyStr default_secret))"
      (is "_ \<Longrightarrow> ?S")
proof -
  let ?env = "load_dotenv dotenv penv"
  let ?R = "create_app ext dotenv penv w"
  from create_app_truthy [OF assms, where ext = ext and w = w]
  obtain w1 a1 w2 a2 w3 a3 w4 r4 w5 a5 where
    m: "set_mail_port ext ?env
        (emit w (LoggerDebug (DatabaseUriConfigured (environ_get ?env ''DATABASE_URL'' PyNone))))
        (config_set (config_set (config_set (config_set Flask
           ''SECRET_KEY'' (environ_get ?env ''SECRET_KEY'' (PyStr default_secret)))
           ''SQLALCHEMY_DATABASE_URI'' (environ_get ?env ''DATABASE_URL'' PyNone))
           ''SQLALCHEMY_TRACK_MODIFICATIONS'' (PyBool False))
           ''MAIL_SERVER'' (environ_get ?env ''MAIL_SERVER'' (PyStr ''smtp.gmail.com'')))
       = (w1, Inr a1)"
    and c2: "configure_mail ?env w1 a1 = (w2, a2)"
    and c3: "configure_notion ext ?env w2 a2 = (w3, a3)"
    and c4: "init_extensions ext w3 a3 = (w4, r4)"
    and c5: "refresh_serializer w4 a3 = (w5, a5)"
    and r: "?R =
         (case r4 of
            Some e \<Rightarrow> (w4, Inl e)
          | None \<Rightarrow>
              (case import_blueprints ext (configure_login w5) a5 of
                 Some e \<Rightarrow> (configure_login w5, Inl e)
               | None \<Rightarrow>
                   (case register_blueprints ext (configure_login w5) a5 of
                      Inl e \<Rightarrow> (configure_login w5, Inl e)
                    | Inr a \<Rightarrow> (configure_login w5, Inr a))))"
    by blast
  have a1: "a1 = \<lparr>config =
                [''SECRET_KEY'' \<mapsto> environ_get ?env ''SECRET_KEY'' (PyStr default_secret),
                 ''SQLALCHEMY_DATABASE_URI'' \<mapsto> environ_get ?env ''DATABASE_URL'' PyNone,
                 ''SQLALCHEMY_TRACK_MODIFICATIONS'' \<mapsto> PyBool False,
                 ''MAIL_SERVER'' \<mapsto> environ_get ?env ''MAIL_SERVER'' (PyStr ''smtp.gmail.com''),
                 ''MAIL_PORT'' \<mapsto> PyInt (case ?env ''MAIL_PORT'' of None \<Rightarrow> 465
                     | Some v \<Rightarrow> (case int_of_str ext v of None \<Rightarrow> 465 | Some n \<Rightarrow> n))],
              notion_client = None, url_serializer = None, blueprints = []\<rparr>"
    using m by (auto simp add: set_mail_port_cases config_set_def Flask_def split: option.splits)
  have w1: "w1 = w\<lparr>emitted := emitted w
              @ [LoggerDebug (DatabaseUriConfigured (environ_get ?env ''DATABASE_URL'' PyNone))]
              @ (case ?env ''MAIL_PORT'' of None \<Rightarrow> []
                 | Some v \<Rightarrow> (case int_of_str ext v of None \<Rightarrow> [LoggerWarning MailPortInvalid]
                              | Some n \<Rightarrow> []))\<rparr>"
    using m by (auto simp add: set_mail_port_cases emit_def split: option.splits)
  note a2 = configure_mail_app [OF c2]
  note w2 = configure_mail_emitted [OF c2]
  note a3 = configure_notion_app [OF c3]
  note w3e = configure_notion_world [OF c3]
  note w3 = configure_notion_rest [OF c3]
  note e5 = refresh_serializer_eq [OF c5]
  from init_extensions_calls [OF c4] obtain rest where
    w4: "w4 = w3\<lparr>init_calls := init_calls w3 @ db_init_app # rest\<rparr>"
    by blast
  have sk: "config_get a3 ''SECRET_KEY'' (PyStr ''default_fallback_secret_again'')
              = environ_get ?env ''SECRET_KEY'' (PyStr default_secret)"
    by (simp add: a3 a2 a1 config_get_def)
  have w5: "w5 = w4\<lparr>global_s := URLSafeTimedSerializer
              (environ_get ?env ''SECRET_KEY'' (PyStr default_secret))\<rparr>"
    using e5 sk by simp
  have e3: "emitted w3 = emitted w
     @ [LoggerDebug (DatabaseUriConfigured (environ_get ?env ''DATABASE_URL'' PyNone))]
     @ (case ?env ''MAIL_PORT'' of None \<Rightarrow> []
        | Some v \<Rightarrow> (case int_of_str ext v of None \<Rightarrow> [LoggerWarning MailPortInvalid] | Some n \<Rightarrow> []))
     @ (if \<not> py_truthy (environ_get ?env ''MAIL_USERNAME'' PyNone)
           \<or> \<not> py_truthy (environ_get ?env ''MAIL_PASSWORD'' PyNone)
        then [LoggerWarning MailIncomplete] else [])
     @ (if py_truthy (environ_get ?env ''NOTION_API_KEY'' PyNone)
        then [LoggerDebug NotionKeyFound,
              (case Client ext (environ_get ?env ''NOTION_API_KEY'' PyNone) 60000 of
                 Inl e \<Rightarrow> LoggerError (NotionInitError e)
               | Inr c \<Rightarrow> LoggerDebug NotionInitialised)]
        else [LoggerWarning NotionKeyMissing])"
    by (simp add: w3e w2 w1 emit_def)
  have i3: "init_calls w3 = init_calls w"
  proof -
    have "init_calls w3 = init_calls w2" using w3 by (metis world.select_convs(2) world.surjective world.update_convs(1))
    also have "\<dots> = init_calls w" by (simp add: w2 w1 emit_def)
    finally show ?thesis .
  qed
  have f: "fst ?R = w4 \<or> fst ?R = configure_login w5"
    unfolding r by (simp split: option.splits sum.splits)
  have e4: "emitted w4 = emitted w3" and e5': "emitted (configure_login w5) = emitted w3"
    by (simp_all add: w4 w5 configure_login_def)
  have i4: "init_calls w4 = init_calls w @ db_init_app # rest"
    and i5: "init_calls (configure_login w5) = init_calls w @ db_init_app # rest"
    by (simp_all add: w4 w5 i3 configure_login_def)
  from f e4 e5' e3 show ?E by auto
  from f i4 i5 show ?I by auto
  {
    assume ret: "snd ?R = Inr a"
    from ret have reg: "register_blueprints ext (configure_login w5) a5 = Inr a"
      and fst: "fst ?R = configure_login w5"
      unfolding r by (simp_all split: option.splits sum.splits)
    from register_all_Inr [OF reg [unfolded register_blueprints_def]]
    have "a = a5\<lparr>blueprints := blueprints a5 @
              [(main_bp, None), (auth_bp, Some ''/auth''), (solicitudes_bp, Some ''/solicitudes''),
               (ajustes_bp, Some ''/ajustes''), (proyectos_bp, Some ''/proyectos''),
               (accesorios_bp, Some ''/accesorios''), (almacen_bp, Some ''/almacen''),
               (compras_bp, Some ''/compras'')]\<rparr>" .
    then show ?A
      apply (simp only: e5 sk)
      apply (simp only: a3)
      apply (simp only: a2)
      apply (simp only: a1)
      apply simp
      done
    show ?S
      by (simp add: fst w5 configure_login_def)
  }
qed

subsection \<open>The fields of the result\<close>

text \<open>
  The returned application object and the new module state, field by field, and the facts
  on strings that the properties below use.
\<close>

lemma create_app_returns:
  assumes "snd (create_app ext dotenv penv w) = Inr a"
  shows "py_truthy (environ_get (load_dotenv dotenv penv) ''DATABASE_URL'' PyNone)"
proof (rule ccontr)
  assume "\<not> py_truthy (environ_get (load_dotenv dotenv penv) ''DATABASE_URL'' PyNone)"
  from create_app_falsy [OF this] have "snd (create_app ext dotenv penv w) = Inl EnvironmentError"
    by simp
  with assms show False by simp
qed

lemmas create_app_app = create_app_outcome(3) [OF create_app_returns]

lemma create_app_config:
  assumes "snd (create_app ext dotenv penv w) = Inr a"
  shows "config a =
     [''SECRET_KEY'' \<mapsto> environ_get (load_dotenv dotenv penv) ''SECRET_KEY'' (PyStr default_secret),
      ''SQLALCHEMY_DATABASE_URI'' \<mapsto> environ_get (load_dotenv dotenv penv) ''DATABASE_URL'' PyNone,
      ''SQLALCHEMY_TRACK_MODIFICATIONS'' \<mapsto> PyBool False,
      ''MAIL_SERVER'' \<mapsto>
         environ_get (load_dotenv dotenv penv) ''MAIL_SERVER'' (PyStr ''smtp.gmail.com''),
      ''MAIL_PORT'' \<mapsto> PyInt (case load_dotenv dotenv penv ''MAIL_PORT'' of None \<Rightarrow> 465
          | Some v \<Rightarrow> (case int_of_str ext v of None \<Rightarrow> 465 | Some n \<Rightarrow> n)),
      ''MAIL_USE_TLS'' \<mapsto>
         PyBool (lower (environ_get_str (load_dotenv dotenv penv) ''MAIL_USE_TLS'' ''False'') = ''true''),
      ''MAIL_USE_SSL'' \<mapsto>
         PyBool (lower (environ_get_str (load_dotenv dotenv penv) ''MAIL_USE_SSL'' ''True'') = ''true''),
      ''MAIL_USERNAME'' \<mapsto> environ_get (load_dotenv dotenv penv) ''MAIL_USERNAME'' PyNone,
      ''MAIL_PASSWORD'' \<mapsto> environ_get (load_dotenv dotenv penv) ''MAIL_PASSWORD'' PyNone,
      ''MAIL_DEFAULT_SENDER'' \<mapsto>
         environ_get (load_dotenv dotenv penv) ''MAIL_DEFAULT_SENDER''
           (environ_get (load_dotenv dotenv penv) ''MAIL_USERNAME'' PyNone),
      ''NOTION_API_KEY'' \<mapsto> environ_get (load_dotenv dotenv penv) ''NOTION_API_KEY'' PyNone,
      ''DATABASE_ID_PROYECTOS'' \<mapsto>
         environ_get (load_dotenv dotenv penv) ''DATABASE_ID_PROYECTOS'' PyNone,
      ''DATABASE_ID_PARTIDAS'' \<mapsto>
         environ_get (load_dotenv dotenv penv) ''DATABASE_ID_PARTIDAS'' PyNone,
      ''DATABASE_ID_PLANES'' \<mapsto> environ_get (load_dotenv dotenv penv) ''DATABASE_ID_PLANES'' PyNone,
      ''DATABASE_ID_MATERIALES_DB1'' \<mapsto> environ_get (load_dotenv dotenv penv) ''DATABASE_ID'' PyNone,
      ''DATABASE_ID_MATERIALES_DB2'' \<mapsto>
         environ_get (load_dotenv dotenv penv) ''DATABASE_ID_2'' PyNone]"
  by (simp add: create_app_app [OF assms assms])

lemma create_app_notion_client:
  assumes "snd (create_app ext dotenv penv w) = Inr a"
  shows "notion_client a =
     (if py_truthy (environ_get (load_dotenv dotenv penv) ''NOTION_API_KEY'' PyNone)
      then (case Client ext (environ_get (load_dotenv dotenv penv) ''NOTION_API_KEY'' PyNone) 60000 of
              Inl e \<Rightarrow> None | Inr c \<Rightarrow> Some c)
      else None)"
  by (simp add: create_app_app [OF assms assms])

lemma create_app_url_serializer:
  assumes "snd (create_app ext dotenv penv w) = Inr a"
  shows "url_serializer a = Some (URLSafeTimedSerializer
           (environ_get (load_dotenv dotenv penv) ''SECRET_KEY'' (PyStr default_secret)))"
  by (simp add: create_app_app [OF assms assms])

lemma create_app_blueprints:
  assumes "snd (create_app ext dotenv penv w) = Inr a"
  shows "blueprints a =
     [(main_bp, None), (auth_bp, Some ''/auth''), (solicitudes_bp, Some ''/solicitudes''),
      (ajustes_bp, Some ''/ajustes''), (proyectos_bp, Some ''/proyectos''),
      (accesorios_bp, Some ''/accesorios''), (almacen_bp, Some ''/almacen''),
      (compras_bp, Some ''/compras'')]"
  by (simp add: create_app_app [OF assms assms])

lemmas create_app_global_s = create_app_outcome(4) [OF create_app_returns]

lemmas create_app_emitted = create_app_outcome(1)

lemmas create_app_continues = create_app_outcome(2)

text \<open>
  When the database URL is truthy and no extension, import or registration raises, the
  factory returns.
\<close>

lemma init_all_return:
  assumes "\<And>c w a. init_app_raises ext c w a = None"
  shows "snd (init_all ext cs w a) = None"
  by (induction cs arbitrary: w) (simp_all add: init_app_def assms)

lemma import_all_return:
  assumes "\<And>b w a. import_raises ext b w a = None"
  shows "import_all ext bs w a = None"
  by (induction bs) (simp_all add: assms)

lemma register_all_return:
  assumes "\<And>b p w a. register_raises ext b p w a = None"
  shows "\<exists>a'. register_all ext w l a = Inr a'"
proof (induction l arbitrary: a)
  case Nil
  show ?case by simp
next
  case (Cons x l)
  obtain bp url_prefix where x: "x = (bp, url_prefix)" by (cases x)
  from Cons.IH show ?case by (simp add: x register_blueprint_def assms)
qed

lemma create_app_projr:
  assumes "py_truthy (environ_get (load_dotenv dotenv penv) ''DATABASE_URL'' PyNone)"
    and "\<And>c w a. init_app_raises ext c w a = None"
    and "\<And>b w a. import_raises ext b w a = None"
    and "\<And>b p w a. register_raises ext b p w a = None"
  shows "snd (create_app ext dotenv penv w) = Inr (projr (snd (create_app ext dotenv penv w)))"
proof -
  from create_app_truthy [OF assms(1), where ext = ext and w = w]
  obtain w3 a3 w4 r4 w5 a5 where
    c4: "init_extensions ext w3 a3 = (w4, r4)"
    and r: "create_app ext dotenv penv w =
         (case r4 of
            Some e \<Rightarrow> (w4, Inl e)
          | None \<Rightarrow>
              (case import_blueprints ext (configure_login w5) a5 of
                 Some e \<Rightarrow> (configure_login w5, Inl e)
               | None \<Rightarrow>
                   (case register_blueprints ext (configure_login w5) a5 of
                      Inl e \<Rightarrow> (configure_login w5, Inl e)
                    | Inr a \<Rightarrow> (configure_login w5, Inr a))))"
    by blast
  have "snd (init_extensions ext w3 a3) = None"
    unfolding init_extensions_def by (rule init_all_return [OF assms(2)])
  with c4 have "r4 = None" by simp
  moreover have "import_blueprints ext (configure_login w5) a5 = None"
    unfolding import_blueprints_def by (rule import_all_return [OF assms(3)])
  moreover obtain a' where "register_blueprints ext (configure_login w5) a5 = Inr a'"
    unfolding register_blueprints_def using register_all_return [OF assms(4)] by blast
  ultimately show ?thesis unfolding r by simp
qed

lemma ext_returns_raises:
  "init_app_raises ext_returns c w a = None"
  "import_raises ext_returns b w a = None"
  "register_raises ext_returns b p w a = None"
  "init_app_raises ext_client_raises c w a = None"
  "import_raises ext_client_raises b w a = None"
  "register_raises ext_client_raises b p w a = None"
  by (simp_all add: ext_returns_def ext_client_raises_def)

lemma secret_is_placeholder:
  "environ_get env ''SECRET_KEY'' (PyStr default_secret) = PyStr ''default_secret_key''
     \<longleftrightarrow> env ''SECRET_KEY'' = Some ''default_secret_key''"
  by (simp add: environ_get_def default_secret_def split: option.splits)

lemma lower_True: "lower ''True'' = ''true''"
  by (simp add: lower_def lower_char_def char_of_eq_iff)

lemma lower_False: "lower ''False'' \<noteq> ''true''"
  by (simp add: lower_def lower_char_def char_of_eq_iff)

lemma lower_not_true: "lower ''1'' \<noteq> ''true''" "lower ''yes'' \<noteq> ''true''" "lower ''on'' \<noteq> ''true''"
  by (simp_all add: lower_def lower_char_def char_of_eq_iff)

lemma prefix_take3:
  assumes "prefix p path" and "3 \<le> length p"
  shows "take 3 path = take 3 p"
  using assms by (auto simp add: prefix_def)

subsection \<open>The mandatory database URL\<close>

text \<open>
  Claim C1. Whenever \<^verbatim>\<open>DATABASE_URL\<close> is unset in the environment that the factory
  reads (the process environment after \<^verbatim>\<open>load_dotenv()\<close> has run), \<^verbatim>\<open>create_app()\<close>
  raises \<^verbatim>\<open>EnvironmentError\<close>, so it returns no application object, and at the raise no
  extension has been bound: the list of \<^verbatim>\<open>init_app\<close> calls is the one the factory
  started with. All it has done is log the database URI and print the fatal line.
\<close>

theorem C1_unset_database_url_raises:
  assumes "load_dotenv dotenv process_env ''DATABASE_URL'' = None"
  shows "snd (create_app ext dotenv process_env w) = Inl EnvironmentError
       \<and> init_calls (fst (create_app ext dotenv process_env w)) = init_calls w
       \<and> emitted (fst (create_app ext dotenv process_env w))
           = emitted w @ [LoggerDebug (DatabaseUriConfigured PyNone), Print FatalDatabaseUrl]"
proof -
  have "\<not> py_truthy (environ_get (load_dotenv dotenv process_env) ''DATABASE_URL'' PyNone)"
    using assms by (simp add: environ_get_def)
  from create_app_falsy [OF this] show ?thesis
    using assms by (simp add: environ_get_def emit_def)
qed

text \<open>
  An instance: a \<^verbatim>\<open>.env\<close> file that sets the mail server only and a process environment
  with a secret key and a Notion key.
\<close>

theorem C1_unset_database_url_raises_witness:
  "load_dotenv [''MAIL_SERVER'' \<mapsto> ''smtp.example.org'']
       [''SECRET_KEY'' \<mapsto> ''k'', ''NOTION_API_KEY'' \<mapsto> ''secret_abc''] ''DATABASE_URL'' = None
   \<and> snd (create_app ext_returns [''MAIL_SERVER'' \<mapsto> ''smtp.example.org'']
       [''SECRET_KEY'' \<mapsto> ''k'', ''NOTION_API_KEY'' \<mapsto> ''secret_abc''] module_import)
       = Inl EnvironmentError
   \<and> init_calls (fst (create_app ext_returns [''MAIL_SERVER'' \<mapsto> ''smtp.example.org'']
       [''SECRET_KEY'' \<mapsto> ''k'', ''NOTION_API_KEY'' \<mapsto> ''secret_abc''] module_import)) = []"
proof -
  have h: "load_dotenv [''MAIL_SERVER'' \<mapsto> ''smtp.example.org'']
       [''SECRET_KEY'' \<mapsto> ''k'', ''NOTION_API_KEY'' \<mapsto> ''secret_abc''] ''DATABASE_URL'' = None"
    by (simp add: load_dotenv_def)
  from C1_unset_database_url_raises [OF h, where ext = ext_returns and w = module_import]
  show ?thesis using h by (simp add: module_import_def)
qed

text \<open>
  Claim C9. The check is \<^verbatim>\<open>if not database_url\<close>, so a \<^verbatim>\<open>DATABASE_URL\<close> that is set to
  the empty string fails in the same way, again before any extension is bound: the unset
  and the empty variable both end the factory with the \<^verbatim>\<open>EnvironmentError\<close>.
\<close>

theorem C9_empty_database_url_raises:
  "(load_dotenv dotenv process_env ''DATABASE_URL'' = Some [] \<longrightarrow>
      snd (create_app ext dotenv process_env w) = Inl EnvironmentError
      \<and> init_calls (fst (create_app ext dotenv process_env w)) = init_calls w)
   \<and> (load_dotenv dotenv process_env ''DATABASE_URL'' = None
        \<or> load_dotenv dotenv process_env ''DATABASE_URL'' = Some [] \<longrightarrow>
        snd (create_app ext dotenv process_env w) = Inl EnvironmentError)"
proof (cases "py_truthy (environ_get (load_dotenv dotenv process_env) ''DATABASE_URL'' PyNone)")
  case True
  then show ?thesis
    by (auto simp add: environ_get_def split: option.splits)
next
  case False
  from create_app_falsy [OF False, where ext = ext and w = w] show ?thesis
    by (simp add: emit_def)
qed

theorem C9_empty_database_url_raises_witness:
  "load_dotenv Map.empty [''DATABASE_URL'' \<mapsto> [], ''SECRET_KEY'' \<mapsto> ''k''] ''DATABASE_URL'' = Some []
   \<and> snd (create_app ext_returns Map.empty
            [''DATABASE_URL'' \<mapsto> [], ''SECRET_KEY'' \<mapsto> ''k''] module_import) = Inl EnvironmentError
   \<and> init_calls (fst (create_app ext_returns Map.empty
            [''DATABASE_URL'' \<mapsto> [], ''SECRET_KEY'' \<mapsto> ''k''] module_import)) = []"
proof -
  have h: "load_dotenv Map.empty [''DATABASE_URL'' \<mapsto> [], ''SECRET_KEY'' \<mapsto> ''k''] ''DATABASE_URL'' = Some []"
    by (simp add: load_dotenv_def)
  from C9_empty_database_url_raises [where ext = ext_returns and w = module_import
      and dotenv = Map.empty and process_env = "[''DATABASE_URL'' \<mapsto> [], ''SECRET_KEY'' \<mapsto> ''k'']"]
  show ?thesis using h by (simp add: module_import_def)
qed

subsection \<open>The token serializer\<close>

text \<open>
  Claim C3. Whenever \<^verbatim>\<open>create_app()\<close> returns an application object, the serializer
  attached to it as \<^verbatim>\<open>url_serializer\<close> is built from the value stored under
  \<^verbatim>\<open>SECRET_KEY\<close> in the configuration of that object, which is the environment's
  \<^verbatim>\<open>SECRET_KEY\<close> or else the fixed default; the module variable \<^verbatim>\<open>s\<close> holds the same
  serializer, whatever it held before. The attached serializer equals the one built at
  import time from \<^verbatim>\<open>"default_secret_key"\<close> only if the environment itself sets
  \<^verbatim>\<open>SECRET_KEY\<close> to that very string.
\<close>

theorem C3_serializer_from_configured_secret:
  assumes "snd (create_app ext dotenv process_env w) = Inr a"
  shows "\<exists>k. config a ''SECRET_KEY'' = Some k
           \<and> k = environ_get (load_dotenv dotenv process_env) ''SECRET_KEY''
                   (PyStr ''una_clave_secreta_por_defecto_muy_segura_cambiar_en_produccion'')
           \<and> url_serializer a = Some (URLSafeTimedSerializer k)
           \<and> global_s (fst (create_app ext dotenv process_env w)) = URLSafeTimedSerializer k
           \<and> (url_serializer a = Some (global_s module_import) \<longleftrightarrow>
                load_dotenv dotenv process_env ''SECRET_KEY'' = Some ''default_secret_key'')"
proof -
  let ?k = "environ_get (load_dotenv dotenv process_env) ''SECRET_KEY'' (PyStr default_secret)"
  have c: "config a ''SECRET_KEY'' = Some ?k"
    by (simp add: create_app_config [OF assms])
  have u: "url_serializer a = Some (URLSafeTimedSerializer ?k)"
    by (rule create_app_url_serializer [OF assms])
  have g: "global_s (fst (create_app ext dotenv process_env w)) = URLSafeTimedSerializer ?k"
    by (rule create_app_global_s [OF assms assms])
  have p: "url_serializer a = Some (global_s module_import) \<longleftrightarrow>
             load_dotenv dotenv process_env ''SECRET_KEY'' = Some ''default_secret_key''"
    by (simp add: u module_import_def secret_is_placeholder)
  have d: "PyStr default_secret
             = PyStr ''una_clave_secreta_por_defecto_muy_segura_cambiar_en_produccion''"
    by (simp add: default_secret_def)
  from c u g p show ?thesis unfolding d by blast
qed

theorem C3_serializer_from_configured_secret_witness:
  "snd (create_app ext_returns [''SECRET_KEY'' \<mapsto> ''from-file'']
          [''DATABASE_URL'' \<mapsto> ''sqlite:///app.db'', ''SECRET_KEY'' \<mapsto> ''s3cr3t''] module_import)
     = Inr (projr (snd (create_app ext_returns [''SECRET_KEY'' \<mapsto> ''from-file'']
          [''DATABASE_URL'' \<mapsto> ''sqlite:///app.db'', ''SECRET_KEY'' \<mapsto> ''s3cr3t''] module_import)))
   \<and> config (projr (snd (create_app ext_returns [''SECRET_KEY'' \<mapsto> ''from-file'']
          [''DATABASE_URL'' \<mapsto> ''sqlite:///app.db'', ''SECRET_KEY'' \<mapsto> ''s3cr3t''] module_import)))
        ''SECRET_KEY'' = Some (PyStr ''s3cr3t'')
   \<and> url_serializer (projr (snd (create_app ext_returns [''SECRET_KEY'' \<mapsto> ''from-file'']
          [''DATABASE_URL'' \<mapsto> ''sqlite:///app.db'', ''SECRET_KEY'' \<mapsto> ''s3cr3t''] module_import)))
        = Some (URLSafeTimedSerializer (PyStr ''s3cr3t''))
   \<and> global_s (fst (create_app ext_returns [''SECRET_KEY'' \<mapsto> ''from-file'']
          [''DATABASE_URL'' \<mapsto> ''sqlite:///app.db'', ''SECRET_KEY'' \<mapsto> ''s3cr3t''] module_import))
        = URLSafeTimedSerializer (PyStr ''s3cr3t'')"
proof -
  have "py_truthy (environ_get (load_dotenv [''SECRET_KEY'' \<mapsto> ''from-file'']
          [''DATABASE_URL'' \<mapsto> ''sqlite:///app.db'', ''SECRET_KEY'' \<mapsto> ''s3cr3t''])
          ''DATABASE_URL'' PyNone)"
    by (simp add: load_dotenv_def environ_get_def)
  then have h: "snd (create_app ext_returns [''SECRET_KEY'' \<mapsto> ''from-file'']
          [''DATABASE_URL'' \<mapsto> ''sqlite:///app.db'', ''SECRET_KEY'' \<mapsto> ''s3cr3t''] module_import)
     = Inr (projr (snd (create_app ext_returns [''SECRET_KEY'' \<mapsto> ''from-file'']
          [''DATABASE_URL'' \<mapsto> ''sqlite:///app.db'', ''SECRET_KEY'' \<mapsto> ''s3cr3t''] module_import)))"
    by (rule create_app_projr) (rule ext_returns_raises)+
  from C3_serializer_from_configured_secret [OF h]
  have "config (projr (snd (create_app ext_returns [''SECRET_KEY'' \<mapsto> ''from-file'']
          [''DATABASE_URL'' \<mapsto> ''sqlite:///app.db'', ''SECRET_KEY'' \<mapsto> ''s3cr3t''] module_import)))
        ''SECRET_KEY'' = Some (PyStr ''s3cr3t'')
   \<and> url_serializer (projr (snd (create_app ext_returns [''SECRET_KEY'' \<mapsto> ''from-file'']
          [''DATABASE_URL'' \<mapsto> ''sqlite:///app.db'', ''SECRET_KEY'' \<mapsto> ''s3cr3t''] module_import)))
        = Some (URLSafeTimedSerializer (PyStr ''s3cr3t''))
   \<and> global_s (fst (create_app ext_returns [''SECRET_KEY'' \<mapsto> ''from-file'']
          [''DATABASE_URL'' \<mapsto> ''sqlite:///app.db'', ''SECRET_KEY'' \<mapsto> ''s3cr3t''] module_import))
        = URLSafeTimedSerializer (PyStr ''s3cr3t'')"
    by (simp add: load_dotenv_def environ_get_def)
  with h show ?thesis by (rule conjI)
qed

subsection \<open>The mail settings\<close>

text \<open>
  Claim C5. Let \<^verbatim>\<open>MAIL_PORT\<close> be set to a string that \<^verbatim>\<open>int\<close> does not convert. The
  \<^verbatim>\<open>ValueError\<close> of the conversion never leaves the factory: once the database URL has
  passed its check, the warning on the mail port is logged and the factory goes on to
  bind the extensions; every application object it returns has the mail port 465; and
  it does return one, with that port, when no extension, import or registration raises.
\<close>

theorem C5_mail_port_falls_back:
  assumes "load_dotenv dotenv process_env ''MAIL_PORT'' = Some v" and "int_of_str ext v = None"
  shows "(snd (create_app ext dotenv process_env w) = Inr a \<longrightarrow>
            config a ''MAIL_PORT'' = Some (PyInt 465)
            \<and> LoggerWarning MailPortInvalid
                 \<in> set (emitted (fst (create_app ext dotenv process_env w))))
       \<and> (py_truthy (environ_get (load_dotenv dotenv process_env) ''DATABASE_URL'' PyNone) \<longrightarrow>
            LoggerWarning MailPortInvalid
              \<in> set (emitted (fst (create_app ext dotenv process_env w)))
            \<and> (\<exists>rest. init_calls (fst (create_app ext dotenv process_env w))
                         = init_calls w @ db_init_app # rest))
       \<and> (py_truthy (environ_get (load_dotenv dotenv process_env) ''DATABASE_URL'' PyNone)
            \<and> (\<forall>c w' a'. init_app_raises ext c w' a' = None)
            \<and> (\<forall>b w' a'. import_raises ext b w' a' = None)
            \<and> (\<forall>b p w' a'. register_raises ext b p w' a' = None) \<longrightarrow>
            (\<exists>a'. snd (create_app ext dotenv process_env w) = Inr a'
                   \<and> config a' ''MAIL_PORT'' = Some (PyInt 465)))"
proof -
  let ?R = "create_app ext dotenv process_env w"
  let ?t = "py_truthy (environ_get (load_dotenv dotenv process_env) ''DATABASE_URL'' PyNone)"
  have port: "config b ''MAIL_PORT'' = Some (PyInt 465)" if "snd ?R = Inr b" for b
    by (simp add: create_app_config [OF that] assms)
  have warn: "LoggerWarning MailPortInvalid \<in> set (emitted (fst ?R))" if ?t
    by (simp add: create_app_emitted [OF that] assms)
  have 1: "snd ?R = Inr a \<longrightarrow>
            config a ''MAIL_PORT'' = Some (PyInt 465)
            \<and> LoggerWarning MailPortInvalid \<in> set (emitted (fst ?R))"
    using port warn create_app_returns by blast
  have 2: "?t \<longrightarrow> LoggerWarning MailPortInvalid \<in> set (emitted (fst ?R))
            \<and> (\<exists>rest. init_calls (fst ?R) = init_calls w @ db_init_app # rest)"
    using warn create_app_continues by blast
  have 3: "?t \<and> (\<forall>c w' a'. init_app_raises ext c w' a' = None)
            \<and> (\<forall>b w' a'. import_raises ext b w' a' = None)
            \<and> (\<forall>b p w' a'. register_raises ext b p w' a' = None) \<longrightarrow>
            (\<exists>a'. snd ?R = Inr a' \<and> config a' ''MAIL_PORT'' = Some (PyInt 465))"
  proof (intro impI, elim conjE)
    assume t: ?t and i: "\<forall>c w' a'. init_app_raises ext c w' a' = None"
      and m: "\<forall>b w' a'. import_raises ext b w' a' = None"
      and r: "\<forall>b p w' a'. register_raises ext b p w' a' = None"
    have h: "snd ?R = Inr (projr (snd ?R))"
      by (rule create_app_projr [OF t]) (simp_all add: i m r)
    from h port [OF h] show "\<exists>a'. snd ?R = Inr a' \<and> config a' ''MAIL_PORT'' = Some (PyInt 465)"
      by blast
  qed
  from 1 2 3 show ?thesis by (intro conjI)
qed

text \<open>
  An instance: \<^verbatim>\<open>MAIL_PORT\<close> is \<^verbatim>\<open>"not-a-number"\<close> and nothing else raises.
\<close>

theorem C5_mail_port_falls_back_witness:
  "load_dotenv Map.empty [''DATABASE_URL'' \<mapsto> ''sqlite:///app.db'', ''MAIL_PORT'' \<mapsto> ''not-a-number'']
       ''MAIL_PORT'' = Some ''not-a-number''
   \<and> int_of_str ext_returns ''not-a-number'' = None
   \<and> py_truthy (environ_get (load_dotenv Map.empty
        [''DATABASE_URL'' \<mapsto> ''sqlite:///app.db'', ''MAIL_PORT'' \<mapsto> ''not-a-number''])
        ''DATABASE_URL'' PyNone)
   \<and> (\<exists>a. snd (create_app ext_returns Map.empty
               [''DATABASE_URL'' \<mapsto> ''sqlite:///app.db'', ''MAIL_PORT'' \<mapsto> ''not-a-number'']
               module_import) = Inr a
         \<and> config a ''MAIL_PORT'' = Some (PyInt 465))
   \<and> LoggerWarning MailPortInvalid
        \<in> set (emitted (fst (create_app ext_returns Map.empty
              [''DATABASE_URL'' \<mapsto> ''sqlite:///app.db'', ''MAIL_PORT'' \<mapsto> ''not-a-number'']
              module_import)))"
proof -
  have h1: "load_dotenv Map.empty
       [''DATABASE_URL'' \<mapsto> ''sqlite:///app.db'', ''MAIL_PORT'' \<mapsto> ''not-a-number'']
       ''MAIL_PORT'' = Some ''not-a-number''"
    by (simp add: load_dotenv_def)
  have h2: "int_of_str ext_returns ''not-a-number'' = None"
    by (simp add: ext_returns_def int_of_str_examples_def)
  have t: "py_truthy (environ_get (load_dotenv Map.empty
        [''DATABASE_URL'' \<mapsto> ''sqlite:///app.db'', ''MAIL_PORT'' \<mapsto> ''not-a-number''])
        ''DATABASE_URL'' PyNone)"
    by (simp add: load_dotenv_def environ_get_def)
  have x: "(\<forall>c w' a'. init_app_raises ext_returns c w' a' = None)
            \<and> (\<forall>b w' a'. import_raises ext_returns b w' a' = None)
            \<and> (\<forall>b p w' a'. register_raises ext_returns b p w' a' = None)"
    by (simp add: ext_returns_raises)
  note c = C5_mail_port_falls_back [OF h1 h2, where w = module_import and a = Flask]
  from c [THEN conjunct2, THEN conjunct1, THEN mp, OF t]
  have l: "LoggerWarning MailPortInvalid
        \<in> set (emitted (fst (create_app ext_returns Map.empty
              [''DATABASE_URL'' \<mapsto> ''sqlite:///app.db'', ''MAIL_PORT'' \<mapsto> ''not-a-number'']
              module_import)))"
    by (rule conjunct1)
  from c [THEN conjunct2, THEN conjunct2, THEN mp, OF conjI [OF t x]]
  have r: "\<exists>a. snd (create_app ext_returns Map.empty
               [''DATABASE_URL'' \<mapsto> ''sqlite:///app.db'', ''MAIL_PORT'' \<mapsto> ''not-a-number'']
               module_import) = Inr a
         \<and> config a ''MAIL_PORT'' = Some (PyInt 465)" .
  from h1 h2 t r l show ?thesis by (intro conjI)
qed

text \<open>
  Claim C6. On every application object that \<^verbatim>\<open>create_app()\<close> returns, a variable that
  is unset takes its fallback: without \<^verbatim>\<open>SECRET_KEY\<close> the secret is the fixed literal,
  without \<^verbatim>\<open>MAIL_SERVER\<close> the server is \<^verbatim>\<open>smtp.gmail.com\<close>, without \<^verbatim>\<open>MAIL_USE_TLS\<close>
  the TLS flag is off, without \<^verbatim>\<open>MAIL_USE_SSL\<close> the SSL flag is on, and without
  \<^verbatim>\<open>MAIL_DEFAULT_SENDER\<close> the default sender is the value of \<^verbatim>\<open>MAIL_USERNAME\<close>
  (\<^verbatim>\<open>None\<close> when that is unset too), which is also what the configuration holds as the
  mail user name.
\<close>

theorem C6_fallbacks:
  assumes "snd (create_app ext dotenv process_env w) = Inr a"
  shows "(load_dotenv dotenv process_env ''SECRET_KEY'' = None \<longrightarrow>
            config a ''SECRET_KEY''
              = Some (PyStr ''una_clave_secreta_por_defecto_muy_segura_cambiar_en_produccion''))
       \<and> (load_dotenv dotenv process_env ''MAIL_SERVER'' = None \<longrightarrow>
            config a ''MAIL_SERVER'' = Some (PyStr ''smtp.gmail.com''))
       \<and> (load_dotenv dotenv process_env ''MAIL_USE_TLS'' = None \<longrightarrow>
            config a ''MAIL_USE_TLS'' = Some (PyBool False))
       \<and> (load_dotenv dotenv process_env ''MAIL_USE_SSL'' = None \<longrightarrow>
            config a ''MAIL_USE_SSL'' = Some (PyBool True))
       \<and> (load_dotenv dotenv process_env ''MAIL_DEFAULT_SENDER'' = None \<longrightarrow>
            config a ''MAIL_DEFAULT_SENDER''
              = Some (case load_dotenv dotenv process_env ''MAIL_USERNAME'' of
                        None \<Rightarrow> PyNone | Some u \<Rightarrow> PyStr u)
            \<and> config a ''MAIL_USERNAME''
              = Some (case load_dotenv dotenv process_env ''MAIL_USERNAME'' of
                        None \<Rightarrow> PyNone | Some u \<Rightarrow> PyStr u)
            \<and> config a ''MAIL_DEFAULT_SENDER'' = config a ''MAIL_USERNAME'')"
proof -
  note c = create_app_config [OF assms]
  have 1: "load_dotenv dotenv process_env ''SECRET_KEY'' = None \<longrightarrow>
            config a ''SECRET_KEY''
              = Some (PyStr ''una_clave_secreta_por_defecto_muy_segura_cambiar_en_produccion'')"
    by (simp add: c environ_get_def default_secret_def)
  have 2: "load_dotenv dotenv process_env ''MAIL_SERVER'' = None \<longrightarrow>
            config a ''MAIL_SERVER'' = Some (PyStr ''smtp.gmail.com'')"
    by (simp add: c environ_get_def)
  have 3: "load_dotenv dotenv process_env ''MAIL_USE_TLS'' = None \<longrightarrow>
            config a ''MAIL_USE_TLS'' = Some (PyBool False)"
    by (simp add: c environ_get_str_def lower_False)
  have 4: "load_dotenv dotenv process_env ''MAIL_USE_SSL'' = None \<longrightarrow>
            config a ''MAIL_USE_SSL'' = Some (PyBool True)"
    by (simp add: c environ_get_str_def lower_True)
  have 5: "load_dotenv dotenv process_env ''MAIL_DEFAULT_SENDER'' = None \<longrightarrow>
            config a ''MAIL_DEFAULT_SENDER''
              = Some (case load_dotenv dotenv process_env ''MAIL_USERNAME'' of
                        None \<Rightarrow> PyNone | Some u \<Rightarrow> PyStr u)
            \<and> config a ''MAIL_USERNAME''
              = Some (case load_dotenv dotenv process_env ''MAIL_USERNAME'' of
                        None \<Rightarrow> PyNone | Some u \<Rightarrow> PyStr u)
            \<and> config a ''MAIL_DEFAULT_SENDER'' = config a ''MAIL_USERNAME''"
    by (simp add: c environ_get_def)
  from 1 2 3 4 5 show ?thesis by (intro conjI)
qed

text \<open>
  An instance: only \<^verbatim>\<open>DATABASE_URL\<close> and \<^verbatim>\<open>MAIL_USERNAME\<close> are set; the default sender
  is the user name \<^verbatim>\<open>ops@example.org\<close>.
\<close>

theorem C6_fallbacks_witness:
  "snd (create_app ext_returns Map.empty
          [''DATABASE_URL'' \<mapsto> ''sqlite:///app.db'', ''MAIL_USERNAME'' \<mapsto> ''ops@example.org'']
          module_import)
     = Inr (projr (snd (create_app ext_returns Map.empty
          [''DATABASE_URL'' \<mapsto> ''sqlite:///app.db'', ''MAIL_USERNAME'' \<mapsto> ''ops@example.org'']
          module_import)))
   \<and> config (projr (snd (create_app ext_returns Map.empty
          [''DATABASE_URL'' \<mapsto> ''sqlite:///app.db'', ''MAIL_USERNAME'' \<mapsto> ''ops@example.org'']
          module_import))) ''SECRET_KEY''
       = Some (PyStr ''una_clave_secreta_por_defecto_muy_segura_cambiar_en_produccion'')
   \<and> config (projr (snd (create_app ext_returns Map.empty
          [''DATABASE_URL'' \<mapsto> ''sqlite:///app.db'', ''MAIL_USERNAME'' \<mapsto> ''ops@example.org'']
          module_import))) ''MAIL_SERVER'' = Some (PyStr ''smtp.gmail.com'')
   \<and> config (projr (snd (create_app ext_returns Map.empty
          [''DATABASE_URL'' \<mapsto> ''sqlite:///app.db'', ''MAIL_USERNAME'' \<mapsto> ''ops@example.org'']
          module_import))) ''MAIL_USE_TLS'' = Some (PyBool False)
   \<and> config (projr (snd (create_app ext_returns Map.empty
          [''DATABASE_URL'' \<mapsto> ''sqlite:///app.db'', ''MAIL_USERNAME'' \<mapsto> ''ops@example.org'']
          module_import))) ''MAIL_USE_SSL'' = Some (PyBool True)
   \<and> config (projr (snd (create_app ext_returns Map.empty
          [''DATABASE_URL'' \<mapsto> ''sqlite:///app.db'', ''MAIL_USERNAME'' \<mapsto> ''ops@example.org'']
          module_import))) ''MAIL_DEFAULT_SENDER'' = Some (PyStr ''ops@example.org'')
   \<and> config (projr (snd (create_app ext_returns Map.empty
          [''DATABASE_URL'' \<mapsto> ''sqlite:///app.db'', ''MAIL_USERNAME'' \<mapsto> ''ops@example.org'']
          module_import))) ''MAIL_USERNAME'' = Some (PyStr ''ops@example.org'')"
proof -
  have "py_truthy (environ_get (load_dotenv Map.empty
          [''DATABASE_URL'' \<mapsto> ''sqlite:///app.db'', ''MAIL_USERNAME'' \<mapsto> ''ops@example.org''])
          ''DATABASE_URL'' PyNone)"
    by (simp add: load_dotenv_def environ_get_def)
  then have h: "snd (create_app ext_returns Map.empty
          [''DATABASE_URL'' \<mapsto> ''sqlite:///app.db'', ''MAIL_USERNAME'' \<mapsto> ''ops@example.org'']
          module_import)
     = Inr (projr (snd (create_app ext_returns Map.empty
          [''DATABASE_URL'' \<mapsto> ''sqlite:///app.db'', ''MAIL_USERNAME'' \<mapsto> ''ops@example.org'']
          module_import)))"
    by (rule create_app_projr) (rule ext_returns_raises)+
  from C6_fallbacks [OF h]
  have "config (projr (snd (create_app ext_returns Map.empty
          [''DATABASE_URL'' \<mapsto> ''sqlite:///app.db'', ''MAIL_USERNAME'' \<mapsto> ''ops@example.org'']
          module_import))) ''SECRET_KEY''
       = Some (PyStr ''una_clave_secreta_por_defecto_muy_segura_cambiar_en_produccion'')
   \<and> config (projr (snd (create_app ext_returns Map.empty
          [''DATABASE_URL'' \<mapsto> ''sqlite:///app.db'', ''MAIL_USERNAME'' \<mapsto> ''ops@example.org'']
          module_import))) ''MAIL_SERVER'' = Some (PyStr ''smtp.gmail.com'')
   \<and> config (projr (snd (create_app ext_returns Map.empty
          [''DATABASE_URL'' \<mapsto> ''sqlite:///app.db'', ''MAIL_USERNAME'' \<mapsto> ''ops@example.org'']
          module_import))) ''MAIL_USE_TLS'' = Some (PyBool False)
   \<and> config (projr (snd (create_app ext_returns Map.empty
          [''DATABASE_URL'' \<mapsto> ''sqlite:///app.db'', ''MAIL_USERNAME'' \<mapsto> ''ops@example.org'']
          module_import))) ''MAIL_USE_SSL'' = Some (PyBool True)
   \<and> config (projr (snd (create_app ext_returns Map.empty
          [''DATABASE_URL'' \<mapsto> ''sqlite:///app.db'', ''MAIL_USERNAME'' \<mapsto> ''ops@example.org'']
          module_import))) ''MAIL_DEFAULT_SENDER'' = Some (PyStr ''ops@example.org'')
   \<and> config (projr (snd (create_app ext_returns Map.empty
          [''DATABASE_URL'' \<mapsto> ''sqlite:///app.db'', ''MAIL_USERNAME'' \<mapsto> ''ops@example.org'']
          module_import))) ''MAIL_USERNAME'' = Some (PyStr ''ops@example.org'')"
    by (simp add: load_dotenv_def)
  with h show ?thesis by (rule conjI)
qed

text \<open>
  Claim C10. On every application object that \<^verbatim>\<open>create_app()\<close> returns, each of the two
  flags is the comparison of the lower-cased value with \<^verbatim>\<open>"true"\<close>: for a variable that is
  set, the flag is true exactly when its value, lower-cased, is \<^verbatim>\<open>"true"\<close> (when unset,
  TLS is off and SSL is on). So the values \<^verbatim>\<open>"1"\<close>, \<^verbatim>\<open>"yes"\<close> and \<^verbatim>\<open>"on"\<close> give a false
  flag, also for \<^verbatim>\<open>MAIL_USE_SSL\<close>, whose default is true.
\<close>

theorem C10_flags_compare_with_true:
  assumes "snd (create_app ext dotenv process_env w) = Inr a"
  shows "config a ''MAIL_USE_TLS''
           = Some (PyBool (case load_dotenv dotenv process_env ''MAIL_USE_TLS'' of
                             None \<Rightarrow> False | Some v \<Rightarrow> lower v = ''true''))
       \<and> config a ''MAIL_USE_SSL''
           = Some (PyBool (case load_dotenv dotenv process_env ''MAIL_USE_SSL'' of
                             None \<Rightarrow> True | Some v \<Rightarrow> lower v = ''true''))
       \<and> (load_dotenv dotenv process_env ''MAIL_USE_TLS'' \<in> {Some ''1'', Some ''yes'', Some ''on''}
            \<longrightarrow> config a ''MAIL_USE_TLS'' = Some (PyBool False))
       \<and> (load_dotenv dotenv process_env ''MAIL_USE_SSL'' \<in> {Some ''1'', Some ''yes'', Some ''on''}
            \<longrightarrow> config a ''MAIL_USE_SSL'' = Some (PyBool False))"
proof -
  note c = create_app_config [OF assms]
  have tls: "config a ''MAIL_USE_TLS''
           = Some (PyBool (case load_dotenv dotenv process_env ''MAIL_USE_TLS'' of
                             None \<Rightarrow> False | Some v \<Rightarrow> lower v = ''true''))"
    by (simp add: c environ_get_str_def lower_False split: option.splits)
  have ssl: "config a ''MAIL_USE_SSL''
           = Some (PyBool (case load_dotenv dotenv process_env ''MAIL_USE_SSL'' of
                             None \<Rightarrow> True | Some v \<Rightarrow> lower v = ''true''))"
    by (simp add: c environ_get_str_def lower_True split: option.splits)
  have "load_dotenv dotenv process_env ''MAIL_USE_TLS'' \<in> {Some ''1'', Some ''yes'', Some ''on''}
            \<longrightarrow> config a ''MAIL_USE_TLS'' = Some (PyBool False)"
    unfolding tls using lower_not_true by auto
  moreover
  have "load_dotenv dotenv process_env ''MAIL_USE_SSL'' \<in> {Some ''1'', Some ''yes'', Some ''on''}
            \<longrightarrow> config a ''MAIL_USE_SSL'' = Some (PyBool False)"
    unfolding ssl using lower_not_true by auto
  ultimately show ?thesis using tls ssl by blast
qed

text \<open>
  An instance: \<^verbatim>\<open>MAIL_USE_TLS\<close> is \<^verbatim>\<open>"TRUE"\<close> and \<^verbatim>\<open>MAIL_USE_SSL\<close> is \<^verbatim>\<open>"yes"\<close>; TLS is
  on and SSL is off.
\<close>

theorem C10_flags_compare_with_true_witness:
  "snd (create_app ext_returns Map.empty
          [''DATABASE_URL'' \<mapsto> ''sqlite:///app.db'', ''MAIL_USE_TLS'' \<mapsto> ''TRUE'',
           ''MAIL_USE_SSL'' \<mapsto> ''yes''] module_import)
     = Inr (projr (snd (create_app ext_returns Map.empty
          [''DATABASE_URL'' \<mapsto> ''sqlite:///app.db'', ''MAIL_USE_TLS'' \<mapsto> ''TRUE'',
           ''MAIL_USE_SSL'' \<mapsto> ''yes''] module_import)))
   \<and> config (projr (snd (create_app ext_returns Map.empty
          [''DATABASE_URL'' \<mapsto> ''sqlite:///app.db'', ''MAIL_USE_TLS'' \<mapsto> ''TRUE'',
           ''MAIL_USE_SSL'' \<mapsto> ''yes''] module_import))) ''MAIL_USE_TLS'' = Some (PyBool True)
   \<and> config (projr (snd (create_app ext_returns Map.empty
          [''DATABASE_URL'' \<mapsto> ''sqlite:///app.db'', ''MAIL_USE_TLS'' \<mapsto> ''TRUE'',
           ''MAIL_USE_SSL'' \<mapsto> ''yes''] module_import))) ''MAIL_USE_SSL'' = Some (PyBool False)"
proof -
  have "py_truthy (environ_get (load_dotenv Map.empty
          [''DATABASE_URL'' \<mapsto> ''sqlite:///app.db'', ''MAIL_USE_TLS'' \<mapsto> ''TRUE'',
           ''MAIL_USE_SSL'' \<mapsto> ''yes'']) ''DATABASE_URL'' PyNone)"
    by (simp add: load_dotenv_def environ_get_def)
  then have h: "snd (create_app ext_returns Map.empty
          [''DATABASE_URL'' \<mapsto> ''sqlite:///app.db'', ''MAIL_USE_TLS'' \<mapsto> ''TRUE'',
           ''MAIL_USE_SSL'' \<mapsto> ''yes''] module_import)
     = Inr (projr (snd (create_app ext_returns Map.empty
          [''DATABASE_URL'' \<mapsto> ''sqlite:///app.db'', ''MAIL_USE_TLS'' \<mapsto> ''TRUE'',
           ''MAIL_USE_SSL'' \<mapsto> ''yes''] module_import)))"
    by (rule create_app_projr) (rule ext_returns_raises)+
  have l: "lower ''TRUE'' = ''true''"
    by (simp add: lower_def lower_char_def char_of_eq_iff)
  from C10_flags_compare_with_true [OF h]
  have "config (projr (snd (create_app ext_returns Map.empty
          [''DATABASE_URL'' \<mapsto> ''sqlite:///app.db'', ''MAIL_USE_TLS'' \<mapsto> ''TRUE'',
           ''MAIL_USE_SSL'' \<mapsto> ''yes''] module_import))) ''MAIL_USE_TLS'' = Some (PyBool True)
   \<and> config (projr (snd (create_app ext_returns Map.empty
          [''DATABASE_URL'' \<mapsto> ''sqlite:///app.db'', ''MAIL_USE_TLS'' \<mapsto> ''TRUE'',
           ''MAIL_USE_SSL'' \<mapsto> ''yes''] module_import))) ''MAIL_USE_SSL'' = Some (PyBool False)"
    by (simp add: load_dotenv_def l lower_not_true)
  with h show ?thesis by (rule conjI)
qed

subsection \<open>The Notion settings\<close>

text \<open>
  Claim C8. On every application object that \<^verbatim>\<open>create_app()\<close> returns, each Notion entry
  of the configuration is the value of one environment variable, or \<^verbatim>\<open>None\<close> when that
  variable is unset; there is no other default. The entry \<^verbatim>\<open>DATABASE_ID_MATERIALES_DB1\<close>
  comes from the variable \<^verbatim>\<open>DATABASE_ID\<close> and \<^verbatim>\<open>DATABASE_ID_MATERIALES_DB2\<close> from
  \<^verbatim>\<open>DATABASE_ID_2\<close>; the other four entries carry the name of their variable.
\<close>

theorem C8_notion_settings:
  assumes "snd (create_app ext dotenv process_env w) = Inr a"
  shows "config a ''NOTION_API_KEY''
           = Some (case load_dotenv dotenv process_env ''NOTION_API_KEY'' of
                     None \<Rightarrow> PyNone | Some v \<Rightarrow> PyStr v)
       \<and> config a ''DATABASE_ID_PROYECTOS''
           = Some (case load_dotenv dotenv process_env ''DATABASE_ID_PROYECTOS'' of
                     None \<Rightarrow> PyNone | Some v \<Rightarrow> PyStr v)
       \<and> config a ''DATABASE_ID_PARTIDAS''
           = Some (case load_dotenv dotenv process_env ''DATABASE_ID_PARTIDAS'' of
                     None \<Rightarrow> PyNone | Some v \<Rightarrow> PyStr v)
       \<and> config a ''DATABASE_ID_PLANES''
           = Some (case load_dotenv dotenv process_env ''DATABASE_ID_PLANES'' of
                     None \<Rightarrow> PyNone | Some v \<Rightarrow> PyStr v)
       \<and> config a ''DATABASE_ID_MATERIALES_DB1''
           = Some (case load_dotenv dotenv process_env ''DATABASE_ID'' of
                     None \<Rightarrow> PyNone | Some v \<Rightarrow> PyStr v)
       \<and> config a ''DATABASE_ID_MATERIALES_DB2''
           = Some (case load_dotenv dotenv process_env ''DATABASE_ID_2'' of
                     None \<Rightarrow> PyNone | Some v \<Rightarrow> PyStr v)"
  by (simp add: create_app_config [OF assms] environ_get_def)

text \<open>
  An instance: the environment sets \<^verbatim>\<open>DATABASE_ID\<close> and also a variable that is named
  like the second configuration entry; the first entry takes the value of
  \<^verbatim>\<open>DATABASE_ID\<close>, the second is \<^verbatim>\<open>None\<close> because \<^verbatim>\<open>DATABASE_ID_2\<close> is unset.
\<close>

theorem C8_notion_settings_witness:
  "snd (create_app ext_returns Map.empty
          [''DATABASE_URL'' \<mapsto> ''sqlite:///app.db'', ''DATABASE_ID'' \<mapsto> ''db-one'',
           ''DATABASE_ID_MATERIALES_DB2'' \<mapsto> ''db-two''] module_import)
     = Inr (projr (snd (create_app ext_returns Map.empty
          [''DATABASE_URL'' \<mapsto> ''sqlite:///app.db'', ''DATABASE_ID'' \<mapsto> ''db-one'',
           ''DATABASE_ID_MATERIALES_DB2'' \<mapsto> ''db-two''] module_import)))
   \<and> config (projr (snd (create_app ext_returns Map.empty
          [''DATABASE_URL'' \<mapsto> ''sqlite:///app.db'', ''DATABASE_ID'' \<mapsto> ''db-one'',
           ''DATABASE_ID_MATERIALES_DB2'' \<mapsto> ''db-two''] module_import)))
        ''DATABASE_ID_MATERIALES_DB1'' = Some (PyStr ''db-one'')
   \<and> config (projr (snd (create_app ext_returns Map.empty
          [''DATABASE_URL'' \<mapsto> ''sqlite:///app.db'', ''DATABASE_ID'' \<mapsto> ''db-one'',
           ''DATABASE_ID_MATERIALES_DB2'' \<mapsto> ''db-two''] module_import)))
        ''DATABASE_ID_MATERIALES_DB2'' = Some PyNone
   \<and> config (projr (snd (create_app ext_returns Map.empty
          [''DATABASE_URL'' \<mapsto> ''sqlite:///app.db'', ''DATABASE_ID'' \<mapsto> ''db-one'',
           ''DATABASE_ID_MATERIALES_DB2'' \<mapsto> ''db-two''] module_import)))
        ''NOTION_API_KEY'' = Some PyNone"
proof -
  have "py_truthy (environ_get (load_dotenv Map.empty
          [''DATABASE_URL'' \<mapsto> ''sqlite:///app.db'', ''DATABASE_ID'' \<mapsto> ''db-one'',
           ''DATABASE_ID_MATERIALES_DB2'' \<mapsto> ''db-two'']) ''DATABASE_URL'' PyNone)"
    by (simp add: load_dotenv_def environ_get_def)
  then have h: "snd (create_app ext_returns Map.empty
          [''DATABASE_URL'' \<mapsto> ''sqlite:///app.db'', ''DATABASE_ID'' \<mapsto> ''db-one'',
           ''DATABASE_ID_MATERIALES_DB2'' \<mapsto> ''db-two''] module_import)
     = Inr (projr (snd (create_app ext_returns Map.empty
          [''DATABASE_URL'' \<mapsto> ''sqlite:///app.db'', ''DATABASE_ID'' \<mapsto> ''db-one'',
           ''DATABASE_ID_MATERIALES_DB2'' \<mapsto> ''db-two''] module_import)))"
    by (rule create_app_projr) (rule ext_returns_raises)+
  from C8_notion_settings [OF h]
  have "config (projr (snd (create_app ext_returns Map.empty
          [''DATABASE_URL'' \<mapsto> ''sqlite:///app.db'', ''DATABASE_ID'' \<mapsto> ''db-one'',
           ''DATABASE_ID_MATERIALES_DB2'' \<mapsto> ''db-two''] module_import)))
        ''DATABASE_ID_MATERIALES_DB1'' = Some (PyStr ''db-one'')
   \<and> config (projr (snd (create_app ext_returns Map.empty
          [''DATABASE_URL'' \<mapsto> ''sqlite:///app.db'', ''DATABASE_ID'' \<mapsto> ''db-one'',
           ''DATABASE_ID_MATERIALES_DB2'' \<mapsto> ''db-two''] module_import)))
        ''DATABASE_ID_MATERIALES_DB2'' = Some PyNone
   \<and> config (projr (snd (create_app ext_returns Map.empty
          [''DATABASE_URL'' \<mapsto> ''sqlite:///app.db'', ''DATABASE_ID'' \<mapsto> ''db-one'',
           ''DATABASE_ID_MATERIALES_DB2'' \<mapsto> ''db-two''] module_import)))
        ''NOTION_API_KEY'' = Some PyNone"
    by (simp add: load_dotenv_def)
  with h show ?thesis by (rule conjI)
qed

subsection \<open>The blueprints\<close>

text \<open>
  Claim C7. Every application object that \<^verbatim>\<open>create_app()\<close> returns has exactly eight
  blueprints registered, in this order and with these \<^verbatim>\<open>url_prefix\<close> arguments: main
  with none, then auth, solicitudes, ajustes, proyectos, accesorios, almacen and compras,
  each under the prefix of its name. The eight arguments are pairwise distinct, and no
  request path starts with the prefixes of two different blueprints.
\<close>

theorem C7_blueprints_registered:
  assumes "snd (create_app ext dotenv process_env w) = Inr a"
  shows "blueprints a =
           [(main_bp, None), (auth_bp, Some ''/auth''), (solicitudes_bp, Some ''/solicitudes''),
            (ajustes_bp, Some ''/ajustes''), (proyectos_bp, Some ''/proyectos''),
            (accesorios_bp, Some ''/accesorios''), (almacen_bp, Some ''/almacen''),
            (compras_bp, Some ''/compras'')]
       \<and> distinct (map snd (blueprints a))
       \<and> (\<forall>path b1 p1 b2 p2.
             (b1, Some p1) \<in> set (blueprints a) \<and> (b2, Some p2) \<in> set (blueprints a)
             \<and> prefix p1 path \<and> prefix p2 path \<longrightarrow> b1 = b2)"
proof -
  note b = create_app_blueprints [OF assms]
  have d: "distinct (map snd (blueprints a))"
    by (simp add: b)
  have m: "b1 = b2"
    if "(b1, Some p1) \<in> set (blueprints a)" and "(b2, Some p2) \<in> set (blueprints a)"
      and "prefix p1 path" and "prefix p2 path" for path b1 p1 b2 p2
  proof -
    have l1: "3 \<le> length p1" using that(1) by (auto simp add: b)
    have l2: "3 \<le> length p2" using that(2) by (auto simp add: b)
    have "take 3 p1 = take 3 p2"
      using prefix_take3 [OF that(3) l1] prefix_take3 [OF that(4) l2] by simp
    with that(1,2) show ?thesis by (auto simp add: b)
  qed
  from b d m show ?thesis by blast
qed

text \<open>
  An instance: the path \<^verbatim>\<open>/almacen/entradas\<close> starts with the prefix of almacen and
  with the prefix of no other blueprint.
\<close>

theorem C7_blueprints_registered_witness:
  "snd (create_app ext_returns Map.empty [''DATABASE_URL'' \<mapsto> ''sqlite:///app.db'']
          module_import)
     = Inr (projr (snd (create_app ext_returns Map.empty
          [''DATABASE_URL'' \<mapsto> ''sqlite:///app.db''] module_import)))
   \<and> map fst (filter (\<lambda>bp. case snd bp of None \<Rightarrow> False
                            | Some p \<Rightarrow> prefix p ''/almacen/entradas'')
        (blueprints (projr (snd (create_app ext_returns Map.empty
          [''DATABASE_URL'' \<mapsto> ''sqlite:///app.db''] module_import))))) = [almacen_bp]
   \<and> length (blueprints (projr (snd (create_app ext_returns Map.empty
          [''DATABASE_URL'' \<mapsto> ''sqlite:///app.db''] module_import)))) = 8"
proof -
  have "py_truthy (environ_get (load_dotenv Map.empty
          [''DATABASE_URL'' \<mapsto> ''sqlite:///app.db'']) ''DATABASE_URL'' PyNone)"
    by (simp add: load_dotenv_def environ_get_def)
  then have h: "snd (create_app ext_returns Map.empty [''DATABASE_URL'' \<mapsto> ''sqlite:///app.db'']
          module_import)
     = Inr (projr (snd (create_app ext_returns Map.empty
          [''DATABASE_URL'' \<mapsto> ''sqlite:///app.db''] module_import)))"
    by (rule create_app_projr) (rule ext_returns_raises)+
  from C7_blueprints_registered [OF h]
  have "blueprints (projr (snd (create_app ext_returns Map.empty
          [''DATABASE_URL'' \<mapsto> ''sqlite:///app.db''] module_import))) =
           [(main_bp, None), (auth_bp, Some ''/auth''), (solicitudes_bp, Some ''/solicitudes''),
            (ajustes_bp, Some ''/ajustes''), (proyectos_bp, Some ''/proyectos''),
            (accesorios_bp, Some ''/accesorios''), (almacen_bp, Some ''/almacen''),
            (compras_bp, Some ''/compras'')]"
    by blast
  then have "map fst (filter (\<lambda>bp. case snd bp of None \<Rightarrow> False
                            | Some p \<Rightarrow> prefix p ''/almacen/entradas'')
        (blueprints (projr (snd (create_app ext_returns Map.empty
          [''DATABASE_URL'' \<mapsto> ''sqlite:///app.db''] module_import))))) = [almacen_bp]
   \<and> length (blueprints (projr (snd (create_app ext_returns Map.empty
          [''DATABASE_URL'' \<mapsto> ''sqlite:///app.db''] module_import)))) = 8"
    by simp
  with h show ?thesis by (rule conjI)
qed

subsection \<open>The Notion client\<close>

text \<open>
  Claim C4. The Notion client never makes \<^verbatim>\<open>create_app()\<close> fail. Once the database URL
  has passed its check: with a non-empty \<^verbatim>\<open>NOTION_API_KEY\<close> for which the constructor
  raises, the exception is caught and logged, and without a key (unset or empty) the
  warning on the missing key is logged; in both cases the factory goes on to bind the
  extensions. Whatever the constructor does, the factory returns an application object
  when no extension, import or registration raises. On every application object it
  returns: without the key the handle is \<^verbatim>\<open>None\<close>; with a key for which the constructor
  raises the handle is \<^verbatim>\<open>None\<close>; and a handle that is not \<^verbatim>\<open>None\<close> is the client that
  the constructor returned for a non-empty key, so the client is built only when the key
  is present.
\<close>

theorem C4_notion_client_never_aborts:
  "(snd (create_app ext dotenv process_env w) = Inr a \<longrightarrow>
      (load_dotenv dotenv process_env ''NOTION_API_KEY'' = None \<longrightarrow>
         notion_client a = None
         \<and> LoggerWarning NotionKeyMissing
              \<in> set (emitted (fst (create_app ext dotenv process_env w))))
      \<and> (load_dotenv dotenv process_env ''NOTION_API_KEY'' = Some k
           \<and> Client ext (PyStr k) 60000 = Inl e \<longrightarrow>
           notion_client a = None
           \<and> (k \<noteq> [] \<longrightarrow> LoggerError (NotionInitError e)
                \<in> set (emitted (fst (create_app ext dotenv process_env w)))))
      \<and> (notion_client a = Some c \<longrightarrow>
           (\<exists>k'. load_dotenv dotenv process_env ''NOTION_API_KEY'' = Some k' \<and> k' \<noteq> []
              \<and> Client ext (PyStr k') 60000 = Inr c)))
   \<and> (py_truthy (environ_get (load_dotenv dotenv process_env) ''DATABASE_URL'' PyNone)
        \<and> load_dotenv dotenv process_env ''NOTION_API_KEY'' = Some k \<and> k \<noteq> []
        \<and> Client ext (PyStr k) 60000 = Inl e \<longrightarrow>
        LoggerError (NotionInitError e)
          \<in> set (emitted (fst (create_app ext dotenv process_env w)))
        \<and> (\<exists>rest. init_calls (fst (create_app ext dotenv process_env w))
                     = init_calls w @ db_init_app # rest))
   \<and> (py_truthy (environ_get (load_dotenv dotenv process_env) ''DATABASE_URL'' PyNone)
        \<and> (load_dotenv dotenv process_env ''NOTION_API_KEY'' = None
            \<or> load_dotenv dotenv process_env ''NOTION_API_KEY'' = Some []) \<longrightarrow>
        LoggerWarning NotionKeyMissing
          \<in> set (emitted (fst (create_app ext dotenv process_env w)))
        \<and> (\<exists>rest. init_calls (fst (create_app ext dotenv process_env w))
                     = init_calls w @ db_init_app # rest))
   \<and> (py_truthy (environ_get (load_dotenv dotenv process_env) ''DATABASE_URL'' PyNone)
        \<and> (\<forall>c w' a'. init_app_raises ext c w' a' = None)
        \<and> (\<forall>b w' a'. import_raises ext b w' a' = None)
        \<and> (\<forall>b p w' a'. register_raises ext b p w' a' = None) \<longrightarrow>
        (\<exists>a'. snd (create_app ext dotenv process_env w) = Inr a'))"
proof -
  let ?R = "create_app ext dotenv process_env w"
  let ?env = "load_dotenv dotenv process_env"
  let ?t = "py_truthy (environ_get ?env ''DATABASE_URL'' PyNone)"
  have err: "LoggerError (NotionInitError e) \<in> set (emitted (fst ?R))"
    if ?t and "?env ''NOTION_API_KEY'' = Some k" and "k \<noteq> []"
      and "Client ext (PyStr k) 60000 = Inl e"
    by (simp add: create_app_emitted [OF that(1)] that(2,3,4) environ_get_def)
  have warn: "LoggerWarning NotionKeyMissing \<in> set (emitted (fst ?R))"
    if ?t and "?env ''NOTION_API_KEY'' = None \<or> ?env ''NOTION_API_KEY'' = Some []"
    using that(2) by (auto simp add: create_app_emitted [OF that(1)] environ_get_def)
  have 1: "snd ?R = Inr a \<longrightarrow>
      (?env ''NOTION_API_KEY'' = None \<longrightarrow>
         notion_client a = None \<and> LoggerWarning NotionKeyMissing \<in> set (emitted (fst ?R)))
      \<and> (?env ''NOTION_API_KEY'' = Some k \<and> Client ext (PyStr k) 60000 = Inl e \<longrightarrow>
           notion_client a = None
           \<and> (k \<noteq> [] \<longrightarrow> LoggerError (NotionInitError e) \<in> set (emitted (fst ?R))))
      \<and> (notion_client a = Some c \<longrightarrow>
           (\<exists>k'. ?env ''NOTION_API_KEY'' = Some k' \<and> k' \<noteq> []
              \<and> Client ext (PyStr k') 60000 = Inr c))"
  proof
    assume ret: "snd ?R = Inr a"
    note t = create_app_returns [OF ret]
    note n = create_app_notion_client [OF ret]
    have a: "?env ''NOTION_API_KEY'' = None \<longrightarrow>
         notion_client a = None \<and> LoggerWarning NotionKeyMissing \<in> set (emitted (fst ?R))"
      using warn [OF t] by (simp add: n environ_get_def)
    have b: "?env ''NOTION_API_KEY'' = Some k \<and> Client ext (PyStr k) 60000 = Inl e \<longrightarrow>
           notion_client a = None
           \<and> (k \<noteq> [] \<longrightarrow> LoggerError (NotionInitError e) \<in> set (emitted (fst ?R)))"
      using err [OF t] by (simp add: n environ_get_def)
    have c: "notion_client a = Some c \<longrightarrow>
           (\<exists>k'. ?env ''NOTION_API_KEY'' = Some k' \<and> k' \<noteq> []
              \<and> Client ext (PyStr k') 60000 = Inr c)"
      by (auto simp add: n environ_get_def split: option.splits sum.splits if_splits)
    from a b c show "(?env ''NOTION_API_KEY'' = None \<longrightarrow>
         notion_client a = None \<and> LoggerWarning NotionKeyMissing \<in> set (emitted (fst ?R)))
      \<and> (?env ''NOTION_API_KEY'' = Some k \<and> Client ext (PyStr k) 60000 = Inl e \<longrightarrow>
           notion_client a = None
           \<and> (k \<noteq> [] \<longrightarrow> LoggerError (NotionInitError e) \<in> set (emitted (fst ?R))))
      \<and> (notion_client a = Some c \<longrightarrow>
           (\<exists>k'. ?env ''NOTION_API_KEY'' = Some k' \<and> k' \<noteq> []
              \<and> Client ext (PyStr k') 60000 = Inr c))"
      by (intro conjI)
  qed
  have 2: "?t \<and> ?env ''NOTION_API_KEY'' = Some k \<and> k \<noteq> []
        \<and> Client ext (PyStr k) 60000 = Inl e \<longrightarrow>
        LoggerError (NotionInitError e) \<in> set (emitted (fst ?R))
        \<and> (\<exists>rest. init_calls (fst ?R) = init_calls w @ db_init_app # rest)"
    using err create_app_continues by blast
  have 3: "?t \<and> (?env ''NOTION_API_KEY'' = None \<or> ?env ''NOTION_API_KEY'' = Some []) \<longrightarrow>
        LoggerWarning NotionKeyMissing \<in> set (emitted (fst ?R))
        \<and> (\<exists>rest. init_calls (fst ?R) = init_calls w @ db_init_app # rest)"
    using warn create_app_continues by blast
  have 4: "?t \<and> (\<forall>c w' a'. init_app_raises ext c w' a' = None)
        \<and> (\<forall>b w' a'. import_raises ext b w' a' = None)
        \<and> (\<forall>b p w' a'. register_raises ext b p w' a' = None) \<longrightarrow>
        (\<exists>a'. snd ?R = Inr a')"
  proof (intro impI, elim conjE)
    assume t: ?t and i: "\<forall>c w' a'. init_app_raises ext c w' a' = None"
      and m: "\<forall>b w' a'. import_raises ext b w' a' = None"
      and r: "\<forall>b p w' a'. register_raises ext b p w' a' = None"
    have "snd ?R = Inr (projr (snd ?R))"
      by (rule create_app_projr [OF t]) (simp_all add: i m r)
    then show "\<exists>a'. snd ?R = Inr a'" by (rule exI)
  qed
  from 1 2 3 4 show ?thesis by (intro conjI)
qed

text \<open>
  An instance: the key \<^verbatim>\<open>secret_abc\<close> and a constructor that raises. The factory returns
  an application object without client, and the error is in the log.
\<close>

theorem C4_notion_client_never_aborts_witness:
  "py_truthy (environ_get (load_dotenv Map.empty
        [''DATABASE_URL'' \<mapsto> ''sqlite:///app.db'', ''NOTION_API_KEY'' \<mapsto> ''secret_abc''])
      ''DATABASE_URL'' PyNone)
   \<and> load_dotenv Map.empty
        [''DATABASE_URL'' \<mapsto> ''sqlite:///app.db'', ''NOTION_API_KEY'' \<mapsto> ''secret_abc'']
        ''NOTION_API_KEY'' = Some ''secret_abc''
   \<and> Client ext_client_raises (PyStr ''secret_abc'') 60000 = Inl (OtherException ''APIResponseError'')
   \<and> snd (create_app ext_client_raises Map.empty
            [''DATABASE_URL'' \<mapsto> ''sqlite:///app.db'', ''NOTION_API_KEY'' \<mapsto> ''secret_abc'']
            module_import)
       = Inr (projr (snd (create_app ext_client_raises Map.empty
            [''DATABASE_URL'' \<mapsto> ''sqlite:///app.db'', ''NOTION_API_KEY'' \<mapsto> ''secret_abc'']
            module_import)))
   \<and> notion_client (projr (snd (create_app ext_client_raises Map.empty
            [''DATABASE_URL'' \<mapsto> ''sqlite:///app.db'', ''NOTION_API_KEY'' \<mapsto> ''secret_abc'']
            module_import))) = None
   \<and> LoggerError (NotionInitError (OtherException ''APIResponseError''))
        \<in> set (emitted (fst (create_app ext_client_raises Map.empty
              [''DATABASE_URL'' \<mapsto> ''sqlite:///app.db'', ''NOTION_API_KEY'' \<mapsto> ''secret_abc'']
              module_import)))"
proof -
  have t: "py_truthy (environ_get (load_dotenv Map.empty
        [''DATABASE_URL'' \<mapsto> ''sqlite:///app.db'', ''NOTION_API_KEY'' \<mapsto> ''secret_abc''])
      ''DATABASE_URL'' PyNone)"
    by (simp add: load_dotenv_def environ_get_def)
  have k: "load_dotenv Map.empty
        [''DATABASE_URL'' \<mapsto> ''sqlite:///app.db'', ''NOTION_API_KEY'' \<mapsto> ''secret_abc'']
        ''NOTION_API_KEY'' = Some ''secret_abc''"
    by (simp add: load_dotenv_def)
  have r: "Client ext_client_raises (PyStr ''secret_abc'') 60000
             = Inl (OtherException ''APIResponseError'')"
    by (simp add: ext_client_raises_def ext_returns_def)
  have n: "''secret_abc'' \<noteq> []" by simp
  from t have h: "snd (create_app ext_client_raises Map.empty
            [''DATABASE_URL'' \<mapsto> ''sqlite:///app.db'', ''NOTION_API_KEY'' \<mapsto> ''secret_abc'']
            module_import)
       = Inr (projr (snd (create_app ext_client_raises Map.empty
            [''DATABASE_URL'' \<mapsto> ''sqlite:///app.db'', ''NOTION_API_KEY'' \<mapsto> ''secret_abc'']
            module_import)))"
    by (rule create_app_projr) (rule ext_returns_raises)+
  note c = C4_notion_client_never_aborts [where ext = ext_client_raises and dotenv = Map.empty
      and process_env = "[''DATABASE_URL'' \<mapsto> ''sqlite:///app.db'', ''NOTION_API_KEY'' \<mapsto> ''secret_abc'']"
      and w = module_import and k = "''secret_abc''" and e = "OtherException ''APIResponseError''"
      and c = "NotionClient PyNone 0"
      and a = "projr (snd (create_app ext_client_raises Map.empty
            [''DATABASE_URL'' \<mapsto> ''sqlite:///app.db'', ''NOTION_API_KEY'' \<mapsto> ''secret_abc'']
            module_import))"]
  from c [THEN conjunct1, THEN mp, OF h, THEN conjunct2, THEN conjunct1, THEN mp, OF conjI [OF k r]]
  have x: "notion_client (projr (snd (create_app ext_client_raises Map.empty
            [''DATABASE_URL'' \<mapsto> ''sqlite:///app.db'', ''NOTION_API_KEY'' \<mapsto> ''secret_abc'']
            module_import))) = None"
    by (rule conjunct1)
  from c [THEN conjunct2, THEN conjunct1, THEN mp, OF conjI [OF t conjI [OF k conjI [OF n r]]]]
  have y: "LoggerError (NotionInitError (OtherException ''APIResponseError''))
        \<in> set (emitted (fst (create_app ext_client_raises Map.empty
              [''DATABASE_URL'' \<mapsto> ''sqlite:///app.db'', ''NOTION_API_KEY'' \<mapsto> ''secret_abc'']
              module_import)))"
    by (rule conjunct1)
  from t k r h x y show ?thesis by (intro conjI)
qed

subsection \<open>The user loader\<close>

text \<open>
  Claim C2, as stated, fails: when the identifier converts and the lookup raises an
  exception that is neither a \<^verbatim>\<open>ValueError\<close> nor a \<^verbatim>\<open>TypeError\<close> (here the database
  cannot be reached), that exception leaves the user loader.
\<close>

theorem C2_user_loader_counterexample:
  "py_int int_of_str_examples (PyStr ''7'') = Inr 7
   \<and> session_get_raises 7 = Inl (OtherException ''OperationalError'')
   \<and> snd (load_user int_of_str_examples session_get_raises (PyStr ''7'') module_import)
       = Inl (OtherException ''OperationalError'')"
  by (simp add: load_user_def load_user_except_def session_get_raises_def int_of_str_examples_def)

text \<open>
  Claim C2, amended. For every identifier: when the integer conversion fails, or the
  lookup raises a \<^verbatim>\<open>ValueError\<close> or a \<^verbatim>\<open>TypeError\<close>, the user loader logs the error and
  returns \<^verbatim>\<open>None\<close>; any other exception of the lookup leaves the loader, and a lookup
  that returns gives the loader's result. Called with the string \<^verbatim>\<open>"not-an-integer"\<close>,
  which \<^verbatim>\<open>int\<close> does not convert, it logs and returns \<^verbatim>\<open>None\<close>, whatever the lookup
  would do.
\<close>

theorem C2_user_loader_catches_invalid_id:
  "(py_int int_str user_id = Inl e \<longrightarrow>
      load_user int_str session_get user_id w
        = (emit w (LoggerError (InvalidUserId user_id e)), Inr None))
   \<and> (py_int int_str user_id = Inr n \<and> session_get n = Inl e'
        \<and> (e' = ValueError \<or> e' = TypeError) \<longrightarrow>
        load_user int_str session_get user_id w
          = (emit w (LoggerError (InvalidUserId user_id e')), Inr None))
   \<and> (py_int int_str user_id = Inr n \<and> session_get n = Inl e'
        \<and> e' \<noteq> ValueError \<and> e' \<noteq> TypeError \<longrightarrow>
        load_user int_str session_get user_id w = (w, Inl e'))
   \<and> (py_int int_str user_id = Inr n \<and> session_get n = Inr u \<longrightarrow>
        load_user int_str session_get user_id w = (w, Inr u))
   \<and> (int_str ''not-an-integer'' = None \<longrightarrow>
        load_user int_str session_get (PyStr ''not-an-integer'') w
          = (emit w (LoggerError (InvalidUserId (PyStr ''not-an-integer'') ValueError)), Inr None))"
proof -
  have 1: "py_int int_str user_id = Inl e \<longrightarrow>
      load_user int_str session_get user_id w
        = (emit w (LoggerError (InvalidUserId user_id e)), Inr None)"
    using py_int_Inl [of int_str user_id e] by (auto simp add: load_user_def load_user_except_def)
  have 2: "py_int int_str user_id = Inr n \<and> session_get n = Inl e'
        \<and> (e' = ValueError \<or> e' = TypeError) \<longrightarrow>
        load_user int_str session_get user_id w
          = (emit w (LoggerError (InvalidUserId user_id e')), Inr None)"
    by (auto simp add: load_user_def load_user_except_def)
  have 3: "py_int int_str user_id = Inr n \<and> session_get n = Inl e'
        \<and> e' \<noteq> ValueError \<and> e' \<noteq> TypeError \<longrightarrow>
        load_user int_str session_get user_id w = (w, Inl e')"
    by (auto simp add: load_user_def load_user_except_def)
  have 4: "py_int int_str user_id = Inr n \<and> session_get n = Inr u \<longrightarrow>
        load_user int_str session_get user_id w = (w, Inr u)"
    by (auto simp add: load_user_def)
  have 5: "int_str ''not-an-integer'' = None \<longrightarrow>
        load_user int_str session_get (PyStr ''not-an-integer'') w
          = (emit w (LoggerError (InvalidUserId (PyStr ''not-an-integer'') ValueError)), Inr None)"
    by (simp add: load_user_def load_user_except_def)
  from 1 2 3 4 5 show ?thesis by (intro conjI)
qed

text \<open>
  Four instances: the identifier \<^verbatim>\<open>None\<close>, whose conversion raises \<^verbatim>\<open>TypeError\<close>; the
  identifier \<^verbatim>\<open>"7"\<close> with a lookup that raises \<^verbatim>\<open>ValueError\<close>; the identifier \<^verbatim>\<open>"1"\<close>
  with a lookup that finds the user; and the identifier \<^verbatim>\<open>"not-an-integer"\<close>.
\<close>

theorem C2_user_loader_catches_invalid_id_witness:
  "py_int int_of_str_examples PyNone = Inl TypeError
   \<and> load_user int_of_str_examples session_get_finds PyNone module_import
        = (emit module_import (LoggerError (InvalidUserId PyNone TypeError)), Inr None)
   \<and> py_int int_of_str_examples (PyStr ''7'') = Inr 7 \<and> session_get_rejects 7 = Inl ValueError
   \<and> load_user int_of_str_examples session_get_rejects (PyStr ''7'') module_import
        = (emit module_import (LoggerError (InvalidUserId (PyStr ''7'') ValueError)), Inr None)
   \<and> py_int int_of_str_examples (PyStr ''1'') = Inr 1 \<and> session_get_finds 1 = Inr (Some 1)
   \<and> load_user int_of_str_examples session_get_finds (PyStr ''1'') module_import
        = (module_import, Inr (Some 1))
   \<and> int_of_str_examples ''not-an-integer'' = None
   \<and> load_user int_of_str_examples session_get_raises (PyStr ''not-an-integer'') module_import
        = (emit module_import (LoggerError (InvalidUserId (PyStr ''not-an-integer'') ValueError)),
           Inr None)"
proof -
  have a: "py_int int_of_str_examples PyNone = Inl TypeError" by simp
  have b: "py_int int_of_str_examples (PyStr ''7'') = Inr 7"
    by (simp add: int_of_str_examples_def)
  have c: "session_get_rejects 7 = Inl ValueError" by (simp add: session_get_rejects_def)
  have d: "py_int int_of_str_examples (PyStr ''1'') = Inr 1"
    by (simp add: int_of_str_examples_def)
  have f: "session_get_finds 1 = Inr (Some 1)" by (simp add: session_get_finds_def)
  have g: "int_of_str_examples ''not-an-integer'' = None"
    by (simp add: int_of_str_examples_def)
  note t1 = C2_user_loader_catches_invalid_id [where int_str = int_of_str_examples
      and user_id = PyNone and e = TypeError
      and session_get = session_get_finds and w = module_import and n = 0 and e' = ValueError
      and u = None, THEN conjunct1, THEN mp, OF a]
  note t2 = C2_user_loader_catches_invalid_id [where int_str = int_of_str_examples
      and user_id = "PyStr ''7''" and e = TypeError
      and session_get = session_get_rejects and w = module_import and n = 7 and e' = ValueError
      and u = None, THEN conjunct2, THEN conjunct1, THEN mp]
  have t2': "load_user int_of_str_examples session_get_rejects (PyStr ''7'') module_import
        = (emit module_import (LoggerError (InvalidUserId (PyStr ''7'') ValueError)), Inr None)"
    by (rule t2) (intro conjI b c disjI1 refl)
  note t4 = C2_user_loader_catches_invalid_id [where int_str = int_of_str_examples
      and user_id = "PyStr ''1''" and e = TypeError
      and session_get = session_get_finds and w = module_import and n = 1 and e' = ValueError
      and u = "Some 1", THEN conjunct2, THEN conjunct2, THEN conjunct2, THEN conjunct1, THEN mp]
  have t4': "load_user int_of_str_examples session_get_finds (PyStr ''1'') module_import
        = (module_import, Inr (Some 1))"
    by (rule t4) (intro conjI d f)
  note t5 = C2_user_loader_catches_invalid_id [where int_str = int_of_str_examples
      and user_id = PyNone and e = TypeError
      and session_get = session_get_raises and w = module_import and n = 0 and e' = ValueError
      and u = None, THEN conjunct2, THEN conjunct2, THEN conjunct2, THEN conjunct2, THEN mp, OF g]
  from a t1 b c t2' d f t4' g t5 show ?thesis by (intro conjI)
qed

end
